theory Spec2Isabelle
  imports Main
begin

section \<open>Error model and boundary formatter\<close>

text \<open>
  A response body carries a \<open>message\<close> that is either one string or a list of strings
  (the validation gate throws a list).
\<close>

datatype msg = Text string | Entries "string list"

text \<open>
  Modelled from the spec: \<open>src/utils/error.js\<close> (the class \<open>AppError\<close> and the wrapper
  \<open>catchAsyncError\<close>) is not among the sources. Section 4.1 of the specification describes a failure
  value as \<open>message: string | list<string>\<close> with an integer \<open>statusCode\<close> chosen by the caller;
  a fault that is not an \<open>AppError\<close> (a \<open>TypeError\<close>, a \<open>SyntaxError\<close>, a rejected upload) has a
  message and no \<open>statusCode\<close>.
\<close>

record fault =
  message :: msg
  statusCode :: "nat option"

definition AppError :: "msg \<Rightarrow> nat \<Rightarrow> fault" where
  "AppError m c = \<lparr>message = m, statusCode = Some c\<rparr>"

definition Error :: "string \<Rightarrow> fault" where
  "Error m = \<lparr>message = Text m, statusCode = None\<rparr>"

type_synonym oid = string

text \<open>
  Cryptographic primitives are external libraries (\<open>jsonwebtoken\<close>, \<open>bcrypt\<close>). They are
  modelled symbolically and ideally: a signed token is the term of its payload and of the
  secret that signed it, a password hash is the term of the plain text and the work factor.
  A header value that is not a signed token is \<open>Opaque\<close>; the empty header value is
  \<open>Opaque []\<close>.
\<close>

record payload =
  p_id :: oid
  p_username :: string
  p_email :: string
  p_role :: string
  p_iat :: nat
  p_exp :: nat

datatype token = Opaque string | Jwt payload string

datatype pwhash = Bcrypt string nat

definition hashSync :: "string \<Rightarrow> nat \<Rightarrow> pwhash" where
  "hashSync plain rounds = Bcrypt plain rounds"

definition compareSync :: "string \<Rightarrow> pwhash \<Rightarrow> bool" where
  "compareSync plain h = (case h of Bcrypt p r \<Rightarrow> plain = p)"

text \<open>
  \<open>jwt.sign(payload, secret, {expiresIn})\<close> at clock \<open>now\<close> (milliseconds, as \<open>Date.now()\<close>):
  the library refuses an empty secret, stamps \<open>iat\<close> in seconds and sets \<open>exp = iat + expiresIn\<close>.
  \<open>jwt.verify(token, secret)\<close> fails on a malformed token, on a signature made with another
  secret and once the clock in seconds has reached \<open>exp\<close>.
\<close>

definition jwt_sign :: "oid \<Rightarrow> string \<Rightarrow> string \<Rightarrow> string \<Rightarrow> string \<Rightarrow> nat \<Rightarrow> nat \<Rightarrow> fault + token" where
  "jwt_sign i un em ro secret expiresIn now =
     (if secret = [] then Inl (Error ''secretOrPrivateKey must have a value'')
      else Inr (Jwt \<lparr>p_id = i, p_username = un, p_email = em, p_role = ro,
                     p_iat = now div 1000, p_exp = now div 1000 + expiresIn\<rparr> secret))"

definition jwt_verify :: "token \<Rightarrow> string \<Rightarrow> nat \<Rightarrow> payload option" where
  "jwt_verify t secret now =
     (case t of
        Opaque s \<Rightarrow> None
      | Jwt p k \<Rightarrow> if k = secret \<and> now div 1000 < p_exp p then Some p else None)"

section \<open>Documents and the store\<close>

text \<open>
  The mongoose models. A path of a document that was never set reads \<open>undefined\<close>, one set
  to \<open>null\<close> reads \<open>null\<close>; the two differ under comparison, so \<open>otp\<close> and
  \<open>otpExpire\<close> keep them apart. Ids are the string forms of ObjectIds. The schema's casts
  and setters (lower-casing, ObjectId and Date casts) belong to the persistence layer: a field
  value here is the value as stored. \<open>job.model.js\<close> is not among the sources; the fields
  of a job are those that \<open>addJob\<close> writes.
\<close>

datatype 'a field = Undefined | Null | Val 'a

record user =
  u_id :: oid
  firstName :: string
  lastName :: string
  username :: string
  email :: string
  password :: pwhash
  recoveryEmail :: string
  DOB :: string
  mobileNumber :: string
  role :: string
  status :: string
  otp :: "string field"
  otpExpire :: "nat field"

record company =
  c_id :: oid
  companyName :: string
  description :: string
  industry :: string
  address :: string
  numberOfEmployees :: string
  companyEmail :: string
  companyHR :: oid

record job =
  j_id :: oid
  jobTitle :: string
  jobLocation :: string
  workingTime :: string
  seniorityLevel :: string
  jobDescription :: string
  technicalSkills :: "string list"
  softSkills :: "string list"
  addedBy :: oid

record application =
  a_id :: oid
  jobId :: oid
  userId :: oid
  userTechSkills :: "string list"
  userSoftSkills :: "string list"
  userResume :: string

text \<open>
  What \<open>populate('userId', '-_id -password -firstName -lastName -recoveryEmail -DOB -status')\<close>
  leaves of an applicant.
\<close>

record applicant =
  ap_username :: string
  ap_email :: string
  ap_mobileNumber :: string
  ap_role :: string
  ap_otp :: "string field"
  ap_otpExpire :: "nat field"

text \<open>
  The store: the four collections and the local upload directory (the paths of the files
  that multer has buffered).
\<close>

record db =
  users :: "user list"
  companies :: "company list"
  jobs :: "job list"
  applications :: "application list"
  local_files :: "string list"

text \<open>
  A response: the status set by \<open>res.status\<close> (200 when it is not called) and the JSON body,
  one constructor for each shape of body the controllers send.
\<close>

datatype body =
    Message msg
  | MessageToken string token
  | MessageUser string "user option"
  | MessageJob string "job option"
  | MessageCompany string "company option"
  | Applications "(application \<times> applicant option) list"

record response =
  code :: nat
  json :: body

text \<open>
  The error handler of \<open>index.js\<close>:
  \<^verbatim>\<open>const { message, statusCode } = err; res.status(statusCode || 500).json({ message })\<close>.
  A missing or zero \<open>statusCode\<close> is falsy and gives 500.
\<close>

definition error_handler :: "fault \<Rightarrow> response" where
  "error_handler err =
     \<lparr>code = (case statusCode err of None \<Rightarrow> 500 | Some c \<Rightarrow> if c = 0 then 500 else c),
      json = Message (message err)\<rparr>"

text \<open>
  Modelled from the spec: \<open>catchAsyncError\<close> (absent, see above) is the uniform wrapper of
  section 7 that converts any thrown or rejected fault of the wrapped function into the error
  model, that is, hands it to the error handler. The result is \<open>Inl\<close> of the error handler's
  response when the function threw and \<open>Inr\<close> of what the function did itself otherwise.
  Express does the same for a middleware that throws synchronously (\<open>handle_request\<close>).
\<close>

definition catchAsyncError :: "fault + 'a \<Rightarrow> response + 'a" where
  "catchAsyncError r = (case r of Inl err \<Rightarrow> Inl (error_handler err) | Inr x \<Rightarrow> Inr x)"

definition handle_request :: "fault + 'a \<Rightarrow> response + 'a" where
  "handle_request r = (case r of Inl err \<Rightarrow> Inl (error_handler err) | Inr x \<Rightarrow> Inr x)"

section \<open>Requests\<close>

record upload_file =
  path :: string

record 'b request =
  headers_token :: "token option"
  req_user :: "payload option"
  params_id :: oid
  req_body :: 'b
  req_file :: "upload_file option"

section \<open>Identity verification middleware\<close>

text \<open>
  \<open>auth(role)\<close> of \<open>auth.middlewares.js\<close>. \<open>!token\<close> holds for a missing header and for
  an empty one. The callback of \<open>jwt.verify\<close> runs synchronously, so what it throws rejects
  the wrapped function; \<open>next()\<close> is \<open>Inr\<close> of the request with \<open>req.user\<close> set.
\<close>

definition auth :: "string option \<Rightarrow> nat \<Rightarrow> 'b request \<Rightarrow> fault + 'b request" where
  "auth role_wanted now req =
     (case headers_token req of
        None \<Rightarrow> Inl (AppError (Text ''Please SignIn'') 401)
      | Some t \<Rightarrow>
          if t = Opaque [] then Inl (AppError (Text ''Please SignIn'') 401)
          else
            (case jwt_verify t ''secret'' now of
               None \<Rightarrow> Inl (AppError (Text ''Invalid token'') 498)
             | Some decoded \<Rightarrow>
                 (case role_wanted of
                    None \<Rightarrow> Inr (req\<lparr>req_user := Some decoded\<rparr>)
                  | Some r \<Rightarrow>
                      if p_role decoded \<noteq> r
                      then Inl (AppError (Text ''Not enough privileges'') 403)
                      else Inr (req\<lparr>req_user := Some decoded\<rparr>))))"

section \<open>Validation gate\<close>

text \<open>
  \<open>validate(schema, target = 'body')\<close> of \<open>validate.middleware.js\<close> reads the request only
  through \<open>req[target]\<close>, so the request is viewed here as the property map of the \<open>req\<close>
  object. Joi is external: a schema is the function that gives, for a value, the details of
  all the rules it violates, in order (\<open>abortEarly: false\<close>); the \<open>error\<close> of the result is
  undefined exactly when there is none.
\<close>

record detail =
  d_message :: string
  d_path :: "string list"
  d_type :: string

type_synonym 'v schema = "'v option \<Rightarrow> detail list"

definition schema_validate :: "'v schema \<Rightarrow> 'v option \<Rightarrow> detail list option" where
  "schema_validate schema v = (case schema v of [] \<Rightarrow> None | d # ds \<Rightarrow> Some (d # ds))"

text \<open>
  The \<open>target\<close> argument is a property name, or, as on the \<open>updateJob\<close> route
  (\<open>validate(JV.updateJobSchema, ['params','body'])\<close>), an array of names; \<open>req[target]\<close>
  turns an array into the property key made of its elements joined by commas.
\<close>

datatype target = Name string | Names "string list"

fun join_comma :: "string list \<Rightarrow> string" where
  "join_comma [] = []"
| "join_comma [k] = k"
| "join_comma (k # k' # ks) = k @ '','' @ join_comma (k' # ks)"

fun property_key :: "target \<Rightarrow> string" where
  "property_key (Name s) = s"
| "property_key (Names ks) = join_comma ks"

definition validate :: "'v schema \<Rightarrow> target option \<Rightarrow> (string \<Rightarrow> 'v option) \<Rightarrow> fault + (string \<Rightarrow> 'v option)" where
  "validate schema tgt req =
     (let t = (case tgt of None \<Rightarrow> Name ''body'' | Some x \<Rightarrow> x) in
      case schema_validate schema (req (property_key t)) of
        Some details \<Rightarrow> Inl (AppError (Entries (map d_message details)) 400)
      | None \<Rightarrow> Inr req)"

section \<open>Queries\<close>

text \<open>
  The mongoose queries the controllers use, on a collection held as the list of its
  documents: \<open>findOne\<close> gives the first match, \<open>findByIdAndUpdate\<close> and
  \<open>findByIdAndDelete\<close> touch the first document with the id and no other.

  An id that comes with the request is cast before the query runs: a string of 24
  hexadecimal digits casts to the ObjectId it spells, whose string form is in lower case;
  any other string makes the query reject with a \<open>CastError\<close>, which has no
  \<open>statusCode\<close>. \<open>byId\<close> is the lookup by an id that is already an ObjectId (a stored
  \<open>_id\<close> or reference).
\<close>

definition is_hex :: "char \<Rightarrow> bool" where
  "is_hex c = (c \<in> set ''0123456789abcdefABCDEF'')"

definition hex_lower :: "char \<Rightarrow> char" where
  "hex_lower c =
     (if c = CHR ''A'' then CHR ''a'' else if c = CHR ''B'' then CHR ''b''
      else if c = CHR ''C'' then CHR ''c'' else if c = CHR ''D'' then CHR ''d''
      else if c = CHR ''E'' then CHR ''e'' else if c = CHR ''F'' then CHR ''f'' else c)"

definition isObjectId :: "string \<Rightarrow> bool" where
  "isObjectId s = (length s = 24 \<and> list_all is_hex s)"

definition CastError :: fault where
  "CastError = Error ''Cast to ObjectId failed''"

text \<open>
  What \<open>save()\<close> and \<open>create()\<close> reject with when a document of the named model does not
  pass its schema; it has no \<open>statusCode\<close> either.
\<close>

definition ValidationError :: "string \<Rightarrow> fault" where
  "ValidationError model = Error (model @ '' validation failed'')"

definition castObjectId :: "string \<Rightarrow> fault + oid" where
  "castObjectId s = (if isObjectId s then Inr (map hex_lower s) else Inl CastError)"

definition findOne :: "('a \<Rightarrow> bool) \<Rightarrow> 'a list \<Rightarrow> 'a option" where
  "findOne P xs = find P xs"

definition byId :: "('a \<Rightarrow> oid) \<Rightarrow> oid \<Rightarrow> 'a list \<Rightarrow> 'a option" where
  "byId ident k xs = find (\<lambda>x. ident x = k) xs"

definition findById :: "('a \<Rightarrow> oid) \<Rightarrow> string \<Rightarrow> 'a list \<Rightarrow> fault + 'a option" where
  "findById ident i xs =
     (case castObjectId i of Inl err \<Rightarrow> Inl err | Inr k \<Rightarrow> Inr (byId ident k xs))"

fun update_first :: "('a \<Rightarrow> bool) \<Rightarrow> ('a \<Rightarrow> 'a) \<Rightarrow> 'a list \<Rightarrow> 'a list" where
  "update_first P f [] = []"
| "update_first P f (x # xs) = (if P x then f x # xs else x # update_first P f xs)"

fun delete_first :: "('a \<Rightarrow> bool) \<Rightarrow> 'a list \<Rightarrow> 'a list" where
  "delete_first P [] = []"
| "delete_first P (x # xs) = (if P x then xs else x # delete_first P xs)"

definition findByIdAndUpdate :: "('a \<Rightarrow> oid) \<Rightarrow> oid \<Rightarrow> ('a \<Rightarrow> 'a) \<Rightarrow> 'a list \<Rightarrow> 'a list" where
  "findByIdAndUpdate ident i f xs = update_first (\<lambda>x. ident x = i) f xs"

definition findByIdAndDelete :: "('a \<Rightarrow> oid) \<Rightarrow> oid \<Rightarrow> 'a list \<Rightarrow> 'a list" where
  "findByIdAndDelete ident i xs = delete_first (\<lambda>x. ident x = i) xs"

text \<open>A key of an update object that is \<open>undefined\<close> leaves the stored path as it is.\<close>

definition orKeep :: "'a option \<Rightarrow> 'a \<Rightarrow> 'a" where
  "orKeep v old = (case v of None \<Rightarrow> old | Some x \<Rightarrow> x)"

text \<open>
  In the controllers below, a document found by \<open>findById\<close> carries the ObjectId the
  request's id was cast to, so the later queries by the same request id (\<open>$ne\<close>,
  \<open>findByIdAndUpdate\<close>, \<open>findByIdAndDelete\<close>) are written with the \<open>_id\<close> of that
  document.
\<close>

text \<open>Reading \<open>req.user.id\<close> when no middleware has set \<open>req.user\<close>.\<close>

definition TypeError :: fault where
  "TypeError = Error ''Cannot read properties of undefined''"

section \<open>Configuration\<close>

record env =
  JWT_SECRET :: string
  JWT_EXPIRES_IN :: nat
  BCRYPT_SALT_ROUNDS :: nat

section \<open>User controller\<close>

record signUp_body =
  su_firstName :: string
  su_lastName :: string
  su_email :: string
  su_password :: string
  su_DOB :: string
  su_mobileNumber :: string
  su_recoveryEmail :: string
  su_role :: "string option"

text \<open>\<open>signUp\<close>; \<open>new_id\<close> is the id the driver gives the created document.\<close>

definition signUp :: "env \<Rightarrow> oid \<Rightarrow> db \<Rightarrow> signUp_body request \<Rightarrow> (fault + response) \<times> db" where
  "signUp ev new_id d req =
     (let b = req_body req;
          uname = su_firstName b @ su_lastName b;
          ro = (case su_role b of None \<Rightarrow> ''User'' | Some r \<Rightarrow> if r = [] then ''User'' else r)
      in case findOne (\<lambda>u. email u = su_email b \<or> mobileNumber u = su_mobileNumber b) (users d) of
           Some u \<Rightarrow> (Inl (AppError (Text ''Email already exists'') 400), d)
         | None \<Rightarrow>
             (let hashedPassword = hashSync (su_password b) (BCRYPT_SALT_ROUNDS ev)
              in (Inr \<lparr>code = 201, json = Message (Text ''signup successfully'')\<rparr>,
                  d\<lparr>users := users d @
                     [\<lparr>u_id = new_id, firstName = su_firstName b, lastName = su_lastName b,
                       username = uname, email = su_email b, password = hashedPassword,
                       recoveryEmail = su_recoveryEmail b, DOB = su_DOB b,
                       mobileNumber = su_mobileNumber b, role = ro, status = ''offline'',
                       otp = Undefined, otpExpire = Undefined\<rparr>]\<rparr>)))"

record signIn_body =
  si_emailOrRecoveryEmailOrMobile :: string
  si_password :: string

definition SignIn :: "env \<Rightarrow> nat \<Rightarrow> db \<Rightarrow> signIn_body request \<Rightarrow> (fault + response) \<times> db" where
  "SignIn ev now d req =
     (let q = si_emailOrRecoveryEmailOrMobile (req_body req);
          sel = (\<lambda>u. email u = q \<or> mobileNumber u = q \<or> recoveryEmail u = q)
      in case findOne sel (users d) of
           None \<Rightarrow> (Inl (AppError (Text ''Incorrect password or email'') 400), d)
         | Some u \<Rightarrow>
             if compareSync (si_password (req_body req)) (password u)
             then
               (let d' = d\<lparr>users := update_first sel (\<lambda>x. x\<lparr>status := ''online''\<rparr>) (users d)\<rparr>
                in case jwt_sign (u_id u) (username u) (email u) (role u)
                          (JWT_SECRET ev) (JWT_EXPIRES_IN ev) now of
                     Inl err \<Rightarrow> (Inl err, d')
                   | Inr t \<Rightarrow> (Inr \<lparr>code = 200, json = MessageToken ''SignIn successfully'' t\<rparr>, d'))
             else (Inl (AppError (Text ''Incorrect password or email'') 400), d))"

record updateAccount_body =
  ua_email :: "string option"
  ua_mobileNumber :: "string option"
  ua_recoveryEmail :: "string option"
  ua_DOB :: "string option"
  ua_lastName :: "string option"
  ua_firstName :: "string option"

definition account_updates :: "updateAccount_body \<Rightarrow> user \<Rightarrow> user" where
  "account_updates b u =
     u\<lparr>email := orKeep (ua_email b) (email u),
       mobileNumber := orKeep (ua_mobileNumber b) (mobileNumber u),
       recoveryEmail := orKeep (ua_recoveryEmail b) (recoveryEmail u),
       DOB := orKeep (ua_DOB b) (DOB u),
       lastName := orKeep (ua_lastName b) (lastName u),
       firstName := orKeep (ua_firstName b) (firstName u)\<rparr>"

definition updateAccount :: "db \<Rightarrow> updateAccount_body request \<Rightarrow> (fault + response) \<times> db" where
  "updateAccount d req =
     (case req_user req of
        None \<Rightarrow> (Inl TypeError, d)
      | Some idn \<Rightarrow>
          (case findById u_id (p_id idn) (users d) of
             Inl err \<Rightarrow> (Inl err, d)
           | Inr None \<Rightarrow> (Inl (AppError (Text ''Please SignUp'') 401), d)
           | Inr (Some x) \<Rightarrow>
               if status x = ''offline'' then (Inl (AppError (Text ''LogIn first'') 401), d)
               else
                 (let b = req_body req;
                      users' = findByIdAndUpdate u_id (u_id x) (account_updates b) (users d);
                      updated = (Inr \<lparr>code = 200,
                                       json = MessageUser ''Account updated successfully''
                                                (byId u_id (u_id x) users')\<rparr>,
                                 d\<lparr>users := users'\<rparr>)
                  in case findOne (\<lambda>u. (ua_email b = Some (email u)
                                          \<or> ua_mobileNumber b = Some (mobileNumber u))
                                        \<and> u_id u \<noteq> u_id x) (users d) of
                       None \<Rightarrow> updated
                     | Some existingUser \<Rightarrow>
                         if ua_email b = Some (email existingUser)
                         then (Inl (AppError (Text ''Email already in use'') 409), d)
                         else if ua_mobileNumber b = Some (mobileNumber existingUser)
                         then (Inl (AppError (Text ''Mobile number already in use'') 409), d)
                         else updated)))"

definition deleteAccount :: "db \<Rightarrow> 'b request \<Rightarrow> (fault + response) \<times> db" where
  "deleteAccount d req =
     (case req_user req of
        None \<Rightarrow> (Inl TypeError, d)
      | Some idn \<Rightarrow>
          (case findById u_id (p_id idn) (users d) of
             Inl err \<Rightarrow> (Inl err, d)
           | Inr None \<Rightarrow> (Inl (AppError (Text ''Please SignUp'') 401), d)
           | Inr (Some x) \<Rightarrow>
               if status x = ''offline'' then (Inl (AppError (Text ''LogIn first'') 401), d)
               else (Inr \<lparr>code = 200,
                          json = MessageUser ''Account deleted successfully''
                                   (byId u_id (u_id x) (users d))\<rparr>,
                     d\<lparr>users := findByIdAndDelete u_id (u_id x) (users d)\<rparr>)))"

definition getUserData :: "db \<Rightarrow> 'b request \<Rightarrow> (fault + response) \<times> db" where
  "getUserData d req =
     (case req_user req of
        None \<Rightarrow> (Inl TypeError, d)
      | Some idn \<Rightarrow>
          (case findById u_id (p_id idn) (users d) of
             Inl err \<Rightarrow> (Inl err, d)
           | Inr None \<Rightarrow> (Inl (AppError (Text ''Please SignUp'') 401), d)
           | Inr (Some u) \<Rightarrow>
               if status u = ''offline'' then (Inl (AppError (Text ''LogIn first'') 401), d)
               else (Inr \<lparr>code = 200, json = MessageUser ''Success'' (Some u)\<rparr>, d)))"

subsection \<open>Password recovery\<close>

text \<open>
  The decimal text of a number, as the String cast of the \<open>otp\<close> path stores it.
\<close>

fun toString :: "nat \<Rightarrow> string" where
  "toString n =
     (if n < 10 then [''0123456789'' ! n]
      else toString (n div 10) @ [''0123456789'' ! (n mod 10)])"

declare toString.simps [simp del]

record forgetPassword_body =
  fp_emailOrMobile :: string

text \<open>
  \<open>forgetPassword\<close>. \<open>rnd\<close> stands for the draw \<open>Math.random() * 900000\<close> rounded down;
  \<open>sendMail\<close> is the mail transport, which gives the fault it rejects with, if any.
\<close>

definition forgetPassword ::
  "(string \<Rightarrow> nat \<Rightarrow> fault option) \<Rightarrow> nat \<Rightarrow> nat \<Rightarrow> db \<Rightarrow> forgetPassword_body request
     \<Rightarrow> (fault + response) \<times> db" where
  "forgetPassword sendMail rnd now d req =
     (let q = fp_emailOrMobile (req_body req)
      in case findOne (\<lambda>u. email u = q \<or> mobileNumber u = q) (users d) of
           None \<Rightarrow> (Inl (AppError (Text ''Incorrect email or mobile number'') 400), d)
         | Some u \<Rightarrow>
             (let otp_n = 100000 + rnd mod 900000;
                  otpExpire_n = now + 10 * 60 * 1000;
                  d' = d\<lparr>users := findByIdAndUpdate u_id (u_id u)
                          (\<lambda>x. x\<lparr>otp := Val (toString otp_n), otpExpire := Val otpExpire_n\<rparr>)
                          (users d)\<rparr>
              in case sendMail (recoveryEmail u) otp_n of
                   Some err \<Rightarrow> (Inl err, d')
                 | None \<Rightarrow>
                     (Inr \<lparr>code = 201, json = Message (Text ''OTP has been sent successfully'')\<rparr>,
                      d')))"

record verifyOTP_body =
  vo_emailOrMobile :: string
  vo_otp :: string
  vo_newPassword :: string

text \<open>
  \<open>Date.now() > user.otpExpire\<close>: a stored date compares by its milliseconds, \<open>null\<close>
  compares as 0 and \<open>undefined\<close> makes the comparison false.
\<close>

definition now_after :: "nat \<Rightarrow> nat field \<Rightarrow> bool" where
  "now_after now e = (case e of Undefined \<Rightarrow> False | Null \<Rightarrow> 0 < now | Val t \<Rightarrow> t < now)"

definition verifyOTPAndSetNewPassword ::
  "nat \<Rightarrow> db \<Rightarrow> verifyOTP_body request \<Rightarrow> (fault + response) \<times> db" where
  "verifyOTPAndSetNewPassword now d req =
     (let b = req_body req; q = vo_emailOrMobile b
      in case findOne (\<lambda>u. email u = q \<or> mobileNumber u = q) (users d) of
           None \<Rightarrow> (Inl (AppError (Text ''Invalid email or OTP'') 400), d)
         | Some u \<Rightarrow>
             if otp u \<noteq> Val (vo_otp b) then (Inl (AppError (Text ''Invalid email or OTP'') 400), d)
             else if now_after now (otpExpire u) then (Inl (AppError (Text ''OTP expired'') 400), d)
             else
               (let hashedPassword = hashSync (vo_newPassword b) 8
                in (Inr \<lparr>code = 200, json = Message (Text ''Password updated successfully'')\<rparr>,
                    d\<lparr>users := findByIdAndUpdate u_id (u_id u)
                         (\<lambda>x. x\<lparr>password := hashedPassword, otp := Null, otpExpire := Null\<rparr>)
                         (users d)\<rparr>)))"

section \<open>Company controller\<close>

record addCompany_body =
  ac_companyName :: string
  ac_description :: string
  ac_industry :: string
  ac_address :: string
  ac_numberOfEmployees :: string
  ac_companyEmail :: string
  ac_companyHR :: oid

definition addCompany :: "oid \<Rightarrow> db \<Rightarrow> addCompany_body request \<Rightarrow> (fault + response) \<times> db" where
  "addCompany new_id d req =
     (let b = req_body req
      in case findOne (\<lambda>c. companyName c = ac_companyName b \<or> companyEmail c = ac_companyEmail b)
                (companies d) of
           Some c \<Rightarrow> (Inl (AppError (Text ''Company already exists'') 400), d)
         | None \<Rightarrow>
             (case castObjectId (ac_companyHR b) of
                Inl err \<Rightarrow> (Inl (ValidationError ''Company''), d)
              | Inr hr \<Rightarrow>
                  (Inr \<lparr>code = 201, json = Message (Text ''Company added successfully'')\<rparr>,
                   d\<lparr>companies := companies d @
                      [\<lparr>c_id = new_id, companyName = ac_companyName b,
                        description = ac_description b, industry = ac_industry b,
                        address = ac_address b, numberOfEmployees = ac_numberOfEmployees b,
                        companyEmail = ac_companyEmail b, companyHR = hr\<rparr>]\<rparr>)))"

record updateCompany_body =
  uc_companyName :: "string option"
  uc_description :: "string option"
  uc_industry :: "string option"
  uc_address :: "string option"
  uc_numberOfEmployees :: "string option"
  uc_companyEmail :: "string option"
  uc_companyHR :: "oid option"

definition company_updates :: "updateCompany_body \<Rightarrow> company \<Rightarrow> company" where
  "company_updates b c =
     c\<lparr>companyName := orKeep (uc_companyName b) (companyName c),
       description := orKeep (uc_description b) (description c),
       industry := orKeep (uc_industry b) (industry c),
       address := orKeep (uc_address b) (address c),
       numberOfEmployees := orKeep (uc_numberOfEmployees b) (numberOfEmployees c),
       companyEmail := orKeep (uc_companyEmail b) (companyEmail c),
       companyHR := orKeep (uc_companyHR b) (companyHR c)\<rparr>"

definition updateCompanyData :: "db \<Rightarrow> updateCompany_body request \<Rightarrow> (fault + response) \<times> db" where
  "updateCompanyData d req =
     (case req_user req of
        None \<Rightarrow> (Inl TypeError, d)
      | Some idn \<Rightarrow>
          (case castObjectId (p_id idn) of
             Inl err \<Rightarrow> (Inl err, d)
           | Inr hr \<Rightarrow>
          (case findOne (\<lambda>c. companyHR c = hr) (companies d) of
             None \<Rightarrow> (Inl (AppError (Text ''Only the company owner can update the data'') 403), d)
           | Some c \<Rightarrow>
               (let b = req_body req;
                    companies' = findByIdAndUpdate c_id (c_id c) (company_updates b) (companies d);
                    updated = (Inr \<lparr>code = 200,
                                     json = MessageCompany ''Company data updated successfully''
                                              (byId c_id (c_id c) companies')\<rparr>,
                               d\<lparr>companies := companies'\<rparr>)
                in case findOne (\<lambda>x. (uc_companyName b = Some (companyName x)
                                        \<or> uc_companyEmail b = Some (companyEmail x))
                                      \<and> c_id x \<noteq> c_id c) (companies d) of
                     None \<Rightarrow> updated
                   | Some existingCompany \<Rightarrow>
                       if uc_companyEmail b = Some (companyEmail existingCompany)
                       then (Inl (AppError (Text ''Email already in use'') 409), d)
                       else if uc_companyName b = Some (companyName existingCompany)
                       then (Inl (AppError (Text ''Company name already in use'') 409), d)
                       else updated))))"

definition populate_userId :: "user list \<Rightarrow> application \<Rightarrow> application \<times> applicant option" where
  "populate_userId us a =
     (a, map_option (\<lambda>u. \<lparr>ap_username = username u, ap_email = email u,
                           ap_mobileNumber = mobileNumber u, ap_role = role u,
                           ap_otp = otp u, ap_otpExpire = otpExpire u\<rparr>)
           (byId u_id (userId a) us))"

definition getAllApplicationsForSpecificJob :: "db \<Rightarrow> 'b request \<Rightarrow> (fault + response) \<times> db" where
  "getAllApplicationsForSpecificJob d req =
     (case findById j_id (params_id req) (jobs d) of
        Inl err \<Rightarrow> (Inl err, d)
      | Inr None \<Rightarrow> (Inl (AppError (Text ''Job not found'') 404), d)
      | Inr (Some j) \<Rightarrow>
          (case req_user req of
             None \<Rightarrow> (Inl TypeError, d)
           | Some idn \<Rightarrow>
               if addedBy j \<noteq> p_id idn
               then (Inl (AppError (Text ''Only the owner can view the applications for their jobs'') 498), d)
               else (Inr \<lparr>code = 200,
                          json = Applications
                                   (map (populate_userId (users d))
                                      (filter (\<lambda>a. jobId a = j_id j) (applications d)))\<rparr>,
                     d)))"

section \<open>Job controller\<close>

record updateJob_body =
  uj_jobTitle :: "string option"
  uj_jobLocation :: "string option"
  uj_workingTime :: "string option"
  uj_seniorityLevel :: "string option"
  uj_jobDescription :: "string option"
  uj_technicalSkills :: "string list option"
  uj_softSkills :: "string list option"

definition job_updates :: "updateJob_body \<Rightarrow> oid \<Rightarrow> job \<Rightarrow> job" where
  "job_updates b owner j =
     j\<lparr>jobTitle := orKeep (uj_jobTitle b) (jobTitle j),
       jobLocation := orKeep (uj_jobLocation b) (jobLocation j),
       workingTime := orKeep (uj_workingTime b) (workingTime j),
       seniorityLevel := orKeep (uj_seniorityLevel b) (seniorityLevel j),
       jobDescription := orKeep (uj_jobDescription b) (jobDescription j),
       technicalSkills := orKeep (uj_technicalSkills b) (technicalSkills j),
       softSkills := orKeep (uj_softSkills b) (softSkills j),
       addedBy := owner\<rparr>"

definition updateJob :: "db \<Rightarrow> updateJob_body request \<Rightarrow> (fault + response) \<times> db" where
  "updateJob d req =
     (case findById j_id (params_id req) (jobs d) of
        Inl err \<Rightarrow> (Inl err, d)
      | Inr None \<Rightarrow> (Inl (AppError (Text ''Job not found'') 404), d)
      | Inr (Some j) \<Rightarrow>
          (case req_user req of
             None \<Rightarrow> (Inl TypeError, d)
           | Some idn \<Rightarrow>
               if addedBy j \<noteq> p_id idn
               then (Inl (AppError (Text ''Only the company owner can update the data'') 403), d)
               else
                 (let jobs' = findByIdAndUpdate j_id (j_id j)
                                (job_updates (req_body req) (p_id idn)) (jobs d)
                  in (Inr \<lparr>code = 200,
                           json = MessageJob ''Job data updated successfully''
                                    (byId j_id (j_id j) jobs')\<rparr>,
                      d\<lparr>jobs := jobs'\<rparr>))))"

definition deleteJob :: "db \<Rightarrow> 'b request \<Rightarrow> (fault + response) \<times> db" where
  "deleteJob d req =
     (case findById j_id (params_id req) (jobs d) of
        Inl err \<Rightarrow> (Inl err, d)
      | Inr None \<Rightarrow> (Inl (AppError (Text ''Job not found'') 404), d)
      | Inr (Some j) \<Rightarrow>
          (case req_user req of
             None \<Rightarrow> (Inl TypeError, d)
           | Some idn \<Rightarrow>
               if addedBy j \<noteq> p_id idn
               then (Inl (AppError (Text ''Only the company owner can delete the data'') 403), d)
               else (Inr \<lparr>code = 200,
                          json = MessageJob ''Job data deleted successfully''
                                   (byId j_id (j_id j) (jobs d))\<rparr>,
                     d\<lparr>jobs := findByIdAndDelete j_id (j_id j) (jobs d)\<rparr>)))"

subsection \<open>Application submission\<close>

record applyToJob_body =
  aj_jobId :: oid
  aj_userTechSkills :: string
  aj_userSoftSkills :: string

text \<open>
  \<open>fs.unlinkSync(path)\<close> removes the file or throws when there is none.
\<close>

definition unlinkSync :: "string \<Rightarrow> string list \<Rightarrow> fault + string list" where
  "unlinkSync p fs = (if p \<in> set fs then Inr (removeAll p fs) else Inl (Error ''ENOENT: no such file or directory''))"

text \<open>
  A value that \<open>JSON.parse\<close> gives. How a number is held does not matter here, so the
  type of numbers is left open.
\<close>

datatype 'n json =
    JNull
  | JBool bool
  | JNumber 'n
  | JString string
  | JArray "'n json list"
  | JObject "(string \<times> 'n json) list"

fun as_string :: "'n json \<Rightarrow> string option" where
  "as_string (JString s) = Some s"
| "as_string v = None"

text \<open>
  The \<open>[String]\<close>, \<open>required\<close> paths of \<open>application.model.js\<close>, as \<open>save()\<close> validates
  them: an array of strings is stored as it is; \<open>null\<close> fails \<open>required\<close> and a plain object
  cannot be cast to a string, so both are invalid; what mongoose makes of any other value (a
  scalar, an array with an element that is not a string) is the parameter \<open>other\<close>, which
  gives the stored list or \<open>None\<close> when the value is invalid.
\<close>

definition cast_String_array :: "('n json \<Rightarrow> string list option) \<Rightarrow> 'n json \<Rightarrow> string list option" where
  "cast_String_array other v =
     (case v of
        JNull \<Rightarrow> None
      | JObject kvs \<Rightarrow> None
      | JArray xs \<Rightarrow> (case those (map as_string xs) of Some ss \<Rightarrow> Some ss | None \<Rightarrow> other v)
      | JBool b \<Rightarrow> other v
      | JNumber n \<Rightarrow> other v
      | JString t \<Rightarrow> other v)"

text \<open>
  \<open>new Application({...})\<close> followed by \<open>save()\<close>: the document as the schema casts it, or
  the \<open>ValidationError\<close> that \<open>save()\<close> rejects with, when \<open>userId\<close> is not an ObjectId,
  a skill path is invalid, or the required \<open>userResume\<close> is empty. \<open>jobId\<close> is the
  \<open>_id\<close> of the job that was found.
\<close>

definition new_Application ::
  "('n json \<Rightarrow> string list option) \<Rightarrow> oid \<Rightarrow> oid \<Rightarrow> string \<Rightarrow> 'n json \<Rightarrow> 'n json \<Rightarrow> string
     \<Rightarrow> fault + application" where
  "new_Application other new_id job_id user_id tech soft url =
     (case castObjectId user_id of
        Inl err \<Rightarrow> Inl (ValidationError ''Application'')
      | Inr uid \<Rightarrow>
     (case cast_String_array other tech of
        None \<Rightarrow> Inl (ValidationError ''Application'')
      | Some ts \<Rightarrow>
     (case cast_String_array other soft of
        None \<Rightarrow> Inl (ValidationError ''Application'')
      | Some ss \<Rightarrow>
          if url = [] then Inl (ValidationError ''Application'')
          else Inr \<lparr>a_id = new_id, jobId = job_id, userId = uid, userTechSkills = ts,
                    userSoftSkills = ss, userResume = url\<rparr>)))"

text \<open>
  \<open>applyToJob\<close>. \<open>JSON_parse\<close> is the language's \<open>JSON.parse\<close>, which gives the decoded
  value or throws a \<open>SyntaxError\<close>; \<open>other\<close> is explained above; \<open>upload\<close> is the asset
  store, which resolves with the secure URL of the stored file or rejects with a fault;
  \<open>new_id\<close> is the id of the new document. The missing-file response is sent by the
  controller itself, not thrown.
\<close>

definition applyToJob ::
  "(string \<Rightarrow> fault + 'n json) \<Rightarrow> ('n json \<Rightarrow> string list option) \<Rightarrow> (string \<Rightarrow> fault + string)
     \<Rightarrow> oid \<Rightarrow> db \<Rightarrow> applyToJob_body request \<Rightarrow> (fault + response) \<times> db" where
  "applyToJob JSON_parse other upload new_id d req =
     (case JSON_parse (aj_userTechSkills (req_body req)) of
        Inl err \<Rightarrow> (Inl err, d)
      | Inr tech \<Rightarrow>
     (case JSON_parse (aj_userSoftSkills (req_body req)) of
        Inl err \<Rightarrow> (Inl err, d)
      | Inr soft \<Rightarrow>
     (case findById j_id (aj_jobId (req_body req)) (jobs d) of
        Inl err \<Rightarrow> (Inl err, d)
      | Inr None \<Rightarrow> (Inl (AppError (Text ''Job not found'') 404), d)
      | Inr (Some j) \<Rightarrow>
     (case req_file req of
        None \<Rightarrow> (Inr \<lparr>code = 400, json = Message (Text ''Resume file is required'')\<rparr>, d)
      | Some f \<Rightarrow>
     (case upload (path f) of
        Inl err \<Rightarrow> (Inl err, d)
      | Inr fileUrl \<Rightarrow>
     (case req_user req of
        None \<Rightarrow> (Inl TypeError, d)
      | Some idn \<Rightarrow>
     (case new_Application other new_id (j_id j) (p_id idn) tech soft fileUrl of
        Inl err \<Rightarrow> (Inl err, d)
      | Inr newApplication \<Rightarrow>
          (let d' = d\<lparr>applications := applications d @ [newApplication]\<rparr>
           in case unlinkSync (path f) (local_files d') of
                Inl err \<Rightarrow> (Inl err, d')
              | Inr fs \<Rightarrow>
                  (Inr \<lparr>code = 201, json = Message (Text ''Application submitted successfully'')\<rparr>,
                   d'\<lparr>local_files := fs\<rparr>)))))))))"

section \<open>Sample data\<close>

text \<open>
  A small store and a few requests, on which the theorems below are instantiated: two HR
  users, each with a company, one job posted by the first of them, and one job seeker who is
  offline and holds a recovery code issued at clock 0. The ids are ObjectIds; \<open>jid9\<close>,
  \<open>uid4\<close>, \<open>cid3\<close> and \<open>aid1\<close> name no stored document.
\<close>

abbreviation uid1 :: oid where "uid1 \<equiv> ''64b7f0a1c2d3e4f5a6b7c801''"
abbreviation uid2 :: oid where "uid2 \<equiv> ''64b7f0a1c2d3e4f5a6b7c802''"
abbreviation uid3 :: oid where "uid3 \<equiv> ''64b7f0a1c2d3e4f5a6b7c803''"
abbreviation uid4 :: oid where "uid4 \<equiv> ''64b7f0a1c2d3e4f5a6b7c804''"
abbreviation cid1 :: oid where "cid1 \<equiv> ''64b7f0a1c2d3e4f5a6b7c901''"
abbreviation cid2 :: oid where "cid2 \<equiv> ''64b7f0a1c2d3e4f5a6b7c902''"
abbreviation cid3 :: oid where "cid3 \<equiv> ''64b7f0a1c2d3e4f5a6b7c903''"
abbreviation jid1 :: oid where "jid1 \<equiv> ''64b7f0a1c2d3e4f5a6b7ca01''"
abbreviation jid9 :: oid where "jid9 \<equiv> ''64b7f0a1c2d3e4f5a6b7ca09''"
abbreviation aid1 :: oid where "aid1 \<equiv> ''64b7f0a1c2d3e4f5a6b7cb01''"

definition hr_owner :: user where
  "hr_owner = \<lparr>u_id = uid1, firstName = ''hana'', lastName = ''adel'', username = ''hanaadel'',
     email = ''hana@acme.test'', password = Bcrypt ''Passw0rd1'' 8,
     recoveryEmail = ''hana@home.test'', DOB = ''1990-01-01'', mobileNumber = ''01012345678'',
     role = ''Company_HR'', status = ''online'', otp = Undefined, otpExpire = Undefined\<rparr>"

definition hr_other :: user where
  "hr_other = \<lparr>u_id = uid2, firstName = ''omar'', lastName = ''said'', username = ''omarsaid'',
     email = ''omar@globex.test'', password = Bcrypt ''Passw0rd2'' 8,
     recoveryEmail = ''omar@home.test'', DOB = ''1988-05-05'', mobileNumber = ''01112345678'',
     role = ''Company_HR'', status = ''online'', otp = Undefined, otpExpire = Undefined\<rparr>"

definition seeker :: user where
  "seeker = \<lparr>u_id = uid3, firstName = ''mona'', lastName = ''zaki'', username = ''monazaki'',
     email = ''mona@mail.test'', password = Bcrypt ''Passw0rd3'' 8,
     recoveryEmail = ''mona@home.test'', DOB = ''1995-09-09'', mobileNumber = ''01212345678'',
     role = ''User'', status = ''offline'', otp = Val ''123456'', otpExpire = Val 600000\<rparr>"

definition acme :: company where
  "acme = \<lparr>c_id = cid1, companyName = ''Acme'', description = ''Tools'', industry = ''Retail'',
     address = ''Cairo'', numberOfEmployees = ''11-20 employees'',
     companyEmail = ''jobs@acme.test'', companyHR = uid1\<rparr>"

definition globex :: company where
  "globex = \<lparr>c_id = cid2, companyName = ''Globex'', description = ''Software'',
     industry = ''IT'', address = ''Giza'', numberOfEmployees = ''1-10 employees'',
     companyEmail = ''jobs@globex.test'', companyHR = uid2\<rparr>"

definition backend_job :: job where
  "backend_job = \<lparr>j_id = jid1, jobTitle = ''Backend developer'', jobLocation = ''remotely'',
     workingTime = ''full-time'', seniorityLevel = ''Junior'', jobDescription = ''APIs'',
     technicalSkills = [''node''], softSkills = [''teamwork''], addedBy = uid1\<rparr>"

definition store0 :: db where
  "store0 = \<lparr>users = [hr_owner, hr_other, seeker], companies = [acme, globex],
     jobs = [backend_job], applications = [], local_files = [''uploads/cv.pdf'']\<rparr>"

definition identity_of :: "user \<Rightarrow> payload" where
  "identity_of u = \<lparr>p_id = u_id u, p_username = username u, p_email = email u,
     p_role = role u, p_iat = 0, p_exp = 3600\<rparr>"

definition request_with :: "token option \<Rightarrow> payload option \<Rightarrow> oid \<Rightarrow> 'b \<Rightarrow> 'b request" where
  "request_with h u i b =
     \<lparr>headers_token = h, req_user = u, params_id = i, req_body = b, req_file = None\<rparr>"

text \<open>
  The enumerated keys of \<open>updateJobSchema\<close> (\<open>job.validations.js\<close>), over a section held
  as the list of its keys and string values: a key that is present must hold one of its
  allowed values, and \<open>undefined\<close> is accepted, since no key is required. Then the request
  of an \<open>updateJob\<close> call as the gate sees it, with two values outside their enumerations
  in its body, and the same body as the controller reads it.
\<close>

definition one_of :: "string \<Rightarrow> string list \<Rightarrow> string \<Rightarrow> (string \<times> string) list \<Rightarrow> detail list" where
  "one_of k allowed m kvs =
     (case map_of kvs k of
        None \<Rightarrow> []
      | Some v \<Rightarrow>
          if v \<in> set allowed then []
          else [\<lparr>d_message = m, d_path = [k], d_type = ''any.only''\<rparr>])"

definition updateJobSchema :: "(string \<times> string) list schema" where
  "updateJobSchema v =
     (case v of
        None \<Rightarrow> []
      | Some kvs \<Rightarrow>
          one_of ''jobLocation'' [''onsite'', ''remotely'', ''hybrid'']
            ''Job location must be one of onsite, remotely, hybrid'' kvs
          @ one_of ''workingTime'' [''part-time'', ''full-time'']
              ''Working time must be one of part-time, full-time'' kvs
          @ one_of ''seniorityLevel'' [''Junior'', ''Mid-Level'', ''Senior'', ''Team-Lead'', ''CTO'']
              ''Seniority level must be one of Junior, Mid-Level, Senior, Team-Lead, CTO'' kvs)"

definition updateJob_sections :: "string \<Rightarrow> (string \<times> string) list option" where
  "updateJob_sections =
     [''params'' \<mapsto> [(''id'', jid1)],
      ''body'' \<mapsto> [(''jobLocation'', ''moon''), (''workingTime'', ''never'')]]"

definition moon_update :: updateJob_body where
  "moon_update = \<lparr>uj_jobTitle = None, uj_jobLocation = Some ''moon'',
     uj_workingTime = Some ''never'', uj_seniorityLevel = None, uj_jobDescription = None,
     uj_technicalSkills = None, uj_softSkills = None\<rparr>"

definition configured :: env where
  "configured = \<lparr>JWT_SECRET = ''s3cr3t-key'', JWT_EXPIRES_IN = 3600, BCRYPT_SALT_ROUNDS = 8\<rparr>"

definition signIn_request :: "signIn_body request" where
  "signIn_request = request_with None None []
     \<lparr>si_emailOrRecoveryEmailOrMobile = ''hana@acme.test'', si_password = ''Passw0rd1''\<rparr>"

text \<open>The token that \<open>SignIn\<close> issues to the first HR user at clock 5000 under \<open>configured\<close>.\<close>

definition issued_token :: token where
  "issued_token = Jwt \<lparr>p_id = uid1, p_username = ''hanaadel'', p_email = ''hana@acme.test'',
     p_role = ''Company_HR'', p_iat = 5, p_exp = 3605\<rparr> ''s3cr3t-key''"

definition no_changes :: updateJob_body where
  "no_changes = \<lparr>uj_jobTitle = None, uj_jobLocation = None, uj_workingTime = None,
     uj_seniorityLevel = None, uj_jobDescription = None, uj_technicalSkills = None,
     uj_softSkills = None\<rparr>"

definition no_account_changes :: updateAccount_body where
  "no_account_changes = \<lparr>ua_email = None, ua_mobileNumber = None,
     ua_recoveryEmail = None, ua_DOB = None, ua_lastName = None, ua_firstName = None\<rparr>"

text \<open>Bodies that reuse a unique value of the first HR user or of her company.\<close>

definition taken_signUp :: signUp_body where
  "taken_signUp = \<lparr>su_firstName = ''hani'', su_lastName = ''adel'', su_email = ''hana@acme.test'',
     su_password = ''Passw0rd9'', su_DOB = ''1991-02-02'', su_mobileNumber = ''01512345678'',
     su_recoveryEmail = ''hani@home.test'', su_role = None\<rparr>"

definition taken_company :: addCompany_body where
  "taken_company = \<lparr>ac_companyName = ''Acme'', ac_description = ''Copy'', ac_industry = ''Retail'',
     ac_address = ''Alexandria'', ac_numberOfEmployees = ''1-10 employees'',
     ac_companyEmail = ''hello@copy.test'', ac_companyHR = uid2\<rparr>"

definition taken_email_update :: updateAccount_body where
  "taken_email_update = \<lparr>ua_email = Some ''hana@acme.test'', ua_mobileNumber = None,
     ua_recoveryEmail = None, ua_DOB = None, ua_lastName = None, ua_firstName = None\<rparr>"

definition taken_name_update :: updateCompany_body where
  "taken_name_update = \<lparr>uc_companyName = Some ''Acme'', uc_description = None,
     uc_industry = None, uc_address = None, uc_numberOfEmployees = None,
     uc_companyEmail = None, uc_companyHR = None\<rparr>"

text \<open>
  Password recovery for the job seeker: a recovery request, the reset that submits the code
  drawn with \<open>rnd = 23456\<close>, a reset that submits the code already in \<open>store0\<close>, and a mail
  transport that delivers.
\<close>

definition recover_request :: "forgetPassword_body request" where
  "recover_request = request_with None None [] \<lparr>fp_emailOrMobile = ''mona@mail.test''\<rparr>"

definition reset_request :: "verifyOTP_body request" where
  "reset_request = request_with None None []
     \<lparr>vo_emailOrMobile = ''mona@mail.test'', vo_otp = toString (100000 + 23456 mod 900000),
      vo_newPassword = ''N3wPassword''\<rparr>"

definition late_reset_request :: "verifyOTP_body request" where
  "late_reset_request = request_with None None []
     \<lparr>vo_emailOrMobile = ''mona@mail.test'', vo_otp = ''123456'', vo_newPassword = ''N3wPassword''\<rparr>"

definition mail_delivered :: "string \<Rightarrow> nat \<Rightarrow> fault option" where
  "mail_delivered rcpt n = None"

text \<open>
  Application submission: two skill texts that are JSON arrays of strings,
  \<open>JSON.parse\<close> tabulated on the texts used below (the two arrays and \<open>null\<close> decode; the
  bare word \<open>node\<close>, like any text that is not JSON, is a \<open>SyntaxError\<close>), a schema cast
  that accepts nothing beyond arrays of strings, an asset store that accepts every file, and
  the seeker's request with a given text in \<open>userTechSkills\<close> and a given attachment.
\<close>

definition tech_text :: string where
  \<open>tech_text = ''["node"]''\<close>

definition soft_text :: string where
  \<open>soft_text = ''["teamwork"]''\<close>

definition JSON_parse_table :: "string \<Rightarrow> fault + nat json" where
  "JSON_parse_table s =
     (if s = tech_text then Inr (JArray [JString ''node''])
      else if s = soft_text then Inr (JArray [JString ''teamwork''])
      else if s = ''null'' then Inr JNull
      else Inl (Error ''Unexpected token in JSON''))"

definition no_other_cast :: "nat json \<Rightarrow> string list option" where
  "no_other_cast v = None"

definition asset_store :: "string \<Rightarrow> fault + string" where
  "asset_store p = Inr (''https://assets.test/'' @ p)"

definition apply_request :: "string \<Rightarrow> upload_file option \<Rightarrow> applyToJob_body request" where
  "apply_request tech f =
     \<lparr>headers_token = None, req_user = Some (identity_of seeker), params_id = [],
      req_body = \<lparr>aj_jobId = jid1, aj_userTechSkills = tech, aj_userSoftSkills = soft_text\<rparr>,
      req_file = f\<rparr>"

section \<open>Unfolding rules and facts about the queries\<close>

lemmas sample_defs = store0_def hr_owner_def hr_other_def seeker_def acme_def globex_def
  backend_job_def identity_of_def request_with_def

lemmas boundary_defs = catchAsyncError_def error_handler_def AppError_def

lemma sample_casts:
  "castObjectId uid1 = Inr uid1" "castObjectId uid2 = Inr uid2" "castObjectId uid3 = Inr uid3"
  "castObjectId jid1 = Inr jid1" "castObjectId jid9 = Inr jid9"
  by (simp_all add: castObjectId_def isObjectId_def is_hex_def hex_lower_def)

text \<open>A document that \<open>findById\<close> resolves with is the one its own \<open>_id\<close> looks up.\<close>

lemma findById_byId:
  assumes "findById ident i xs = Inr (Some x)"
  shows "byId ident (ident x) xs = Some x"
proof -
  from assms obtain k where k: "byId ident k xs = Some x"
    by (auto simp: findById_def split: sum.splits)
  then have "ident x = k" by (auto simp: byId_def find_Some_iff)
  with k show ?thesis by simp
qed

lemma those_as_string: "those (map (as_string \<circ> JString) xs) = Some xs"
  by (induction xs) simp_all

lemma map_update_first:
  "(\<And>x. ident (f x) = ident x) \<Longrightarrow> map ident (update_first P f xs) = map ident xs"
  by (induction xs) auto

text \<open>
  In a collection with distinct ids, updating by the id of the first match of \<open>P\<close> with an
  update that does not change \<open>P\<close> makes the updated document the first match.
\<close>

lemma find_update_first:
  assumes "find P xs = Some u" and "distinct (map ident xs)" and "\<And>x. P (f x) = P x"
  shows "find P (update_first (\<lambda>x. ident x = ident u) f xs) = Some (f u)"
  using assms(1,2)
proof (induction xs)
  case Nil
  then show ?case by simp
next
  case (Cons x xs)
  show ?case
  proof (cases "P x")
    case True
    with Cons.prems have "u = x" by simp
    with True assms(3) show ?thesis by simp
  next
    case False
    with Cons.prems have f: "find P xs = Some u" by simp
    then have "u \<in> set xs" by (auto simp: find_Some_iff)
    with Cons.prems(2) have "ident x \<noteq> ident u" by auto
    with False f Cons show ?thesis by simp
  qed
qed

section \<open>Identity verification: the three-way guard\<close>

lemma jwt_verify_None_iff:
  "jwt_verify t secret now = None \<longleftrightarrow>
     (case t of Opaque s \<Rightarrow> True | Jwt p k \<Rightarrow> k \<noteq> secret \<or> p_exp p \<le> now div 1000)"
  by (auto simp: jwt_verify_def split: token.splits)

text \<open>
  Claim C1. On every request, \<open>auth\<close> is a three-way guard. With no token presented (the
  header is missing or empty, the source's \<open>!token\<close>) the request ends with status 401.
  With a token presented whose verification fails (malformed, signed with another secret, or
  expired, see \<open>jwt_verify_None_iff\<close>) it ends with status 498. With a verified token, a
  required role and a decoded role that is not exactly that role, it ends with status 403.
  Otherwise the decoded identity is attached to the request and the pipeline proceeds with
  the request otherwise unchanged.
\<close>

theorem auth_three_way_guard:
  "(headers_token req = None \<or> headers_token req = Some (Opaque []) \<longrightarrow>
      catchAsyncError (auth rw now req)
        = Inl \<lparr>code = 401, json = Message (Text ''Please SignIn'')\<rparr>)
   \<and> (headers_token req = Some t \<and> t \<noteq> Opaque [] \<and> jwt_verify t ''secret'' now = None \<longrightarrow>
      catchAsyncError (auth rw now req)
        = Inl \<lparr>code = 498, json = Message (Text ''Invalid token'')\<rparr>)
   \<and> (headers_token req = Some t \<and> t \<noteq> Opaque [] \<and> jwt_verify t ''secret'' now = Some idn
        \<and> rw = Some r \<and> p_role idn \<noteq> r \<longrightarrow>
      catchAsyncError (auth rw now req)
        = Inl \<lparr>code = 403, json = Message (Text ''Not enough privileges'')\<rparr>)
   \<and> (headers_token req = Some t \<and> t \<noteq> Opaque [] \<and> jwt_verify t ''secret'' now = Some idn
        \<and> (rw = None \<or> rw = Some (p_role idn)) \<longrightarrow>
      catchAsyncError (auth rw now req) = Inr (req\<lparr>req_user := Some idn\<rparr>))"
  by (auto simp: auth_def catchAsyncError_def error_handler_def AppError_def)

theorem auth_three_way_guard_witness:
  "catchAsyncError (auth (Some ''User'') 150000 (request_with None None [] ()))
     = Inl \<lparr>code = 401, json = Message (Text ''Please SignIn'')\<rparr>
   \<and> catchAsyncError (auth (Some ''User'') 150000
        (request_with (Some (Jwt (identity_of seeker) ''other'')) None [] ()))
     = Inl \<lparr>code = 498, json = Message (Text ''Invalid token'')\<rparr>
   \<and> catchAsyncError (auth (Some ''Company_HR'') 150000
        (request_with (Some (Jwt (identity_of seeker) ''secret'')) None [] ()))
     = Inl \<lparr>code = 403, json = Message (Text ''Not enough privileges'')\<rparr>
   \<and> catchAsyncError (auth (Some ''User'') 150000
        (request_with (Some (Jwt (identity_of seeker) ''secret'')) None [] ()))
     = Inr ((request_with (Some (Jwt (identity_of seeker) ''secret'')) None [] ())
              \<lparr>req_user := Some (identity_of seeker)\<rparr>)"
proof -
  let ?good = "Jwt (identity_of seeker) ''secret''"
  let ?bad = "Jwt (identity_of seeker) ''other''"
  have v: "jwt_verify ?good ''secret'' 150000 = Some (identity_of seeker)"
    by (simp add: jwt_verify_def identity_of_def)
  have w: "jwt_verify ?bad ''secret'' 150000 = None"
    by (simp add: jwt_verify_def)
  have r: "p_role (identity_of seeker) = ''User''"
    by (simp add: identity_of_def seeker_def)
  show ?thesis
    using auth_three_way_guard [of "request_with None None [] ()" "Some ''User''" 150000]
      auth_three_way_guard [of "request_with (Some ?bad) None [] ()" "Some ''User''" 150000 ?bad]
      auth_three_way_guard [of "request_with (Some ?good) None [] ()" "Some ''Company_HR''"
        150000 ?good "identity_of seeker" "''Company_HR''"]
      auth_three_way_guard [of "request_with (Some ?good) None [] ()" "Some ''User''"
        150000 ?good "identity_of seeker"]
      v w r
    by (simp add: request_with_def)
qed

section \<open>Validation gate: all violations, as a list\<close>

text \<open>
  What the gate does with the section it reads, \<open>req[target]\<close> (the body when no target is
  given): violations \<open>ds\<close> there (a non-empty list) are rejected with status 400 and the list
  of their messages in the schema's order, which the error handler delivers as a list; with no
  violation the request passes unchanged.
\<close>

lemma validate_collects_all:
  "(schema (req (property_key (case tgt of None \<Rightarrow> Name ''body'' | Some x \<Rightarrow> x))) = ds
      \<and> ds \<noteq> [] \<longrightarrow>
      handle_request (validate schema tgt req)
        = Inl \<lparr>code = 400, json = Message (Entries (map d_message ds))\<rparr>
      \<and> length (map d_message ds) = length ds)
   \<and> (schema (req (property_key (case tgt of None \<Rightarrow> Name ''body'' | Some x \<Rightarrow> x))) = [] \<longrightarrow>
      handle_request (validate schema tgt req) = Inr req)"
  by (auto simp: validate_def schema_validate_def handle_request_def error_handler_def
        AppError_def Let_def split: list.splits option.splits)

text \<open>
  On the \<open>updateJob\<close> route the section read is \<open>req['params,body']\<close>. A request object
  has no such property, and an object schema with no required key accepts \<open>undefined\<close>, so
  there the gate lets every request pass, whatever its body and params hold.
\<close>

lemma validate_array_target:
  assumes "req ''params,body'' = None" and "schema None = []"
  shows "handle_request (validate schema (Some (Names [''params'', ''body''])) req) = Inr req"
  using assms by (simp add: validate_def schema_validate_def handle_request_def)

text \<open>
  Claim C3. The claim is that on every validation-gated route a payload that violates N
  rules of the schema is rejected with status 400 and the list of the N messages. Evaluated
  on the \<open>updateJob\<close> route, whose gate is
  \<open>validate(JV.updateJobSchema, ['params','body'])\<close>: the body with \<open>jobLocation\<close>
  \<open>moon\<close> and \<open>workingTime\<close> \<open>never\<close> violates two rules of \<open>updateJobSchema\<close>, yet
  the gate passes the request on unchanged, and \<open>updateJob\<close>, called by the job's owner,
  stores both values and answers 200.
\<close>

theorem updateJob_gate_passes_invalid_body:
  "map d_message (updateJobSchema (updateJob_sections ''body''))
     = [''Job location must be one of onsite, remotely, hybrid'',
        ''Working time must be one of part-time, full-time'']
   \<and> handle_request (validate updateJobSchema (Some (Names [''params'', ''body'']))
        updateJob_sections)
     = Inr updateJob_sections
   \<and> catchAsyncError (fst (updateJob store0
        (request_with None (Some (identity_of hr_owner)) jid1 moon_update)))
     = Inr \<lparr>code = 200,
            json = MessageJob ''Job data updated successfully''
                     (Some (backend_job\<lparr>jobLocation := ''moon'', workingTime := ''never''\<rparr>))\<rparr>"
  by (simp add: updateJobSchema_def updateJob_sections_def one_of_def moon_update_def
        validate_def schema_validate_def handle_request_def updateJob_def job_updates_def
        orKeep_def findById_def byId_def findByIdAndUpdate_def sample_casts Let_def
        sample_defs boundary_defs)

section \<open>The credential round trip\<close>

text \<open>
  What a successful \<open>SignIn\<close> issues: the token of the found user's id, username, email and
  role, stamped at the clock and signed with the configured secret.
\<close>

lemma SignIn_token:
  assumes "fst (SignIn ev issued d rq) = Inr \<lparr>code = c, json = MessageToken m t\<rparr>"
  shows "\<exists>u. findOne (\<lambda>u. email u = si_emailOrRecoveryEmailOrMobile (req_body rq)
                       \<or> mobileNumber u = si_emailOrRecoveryEmailOrMobile (req_body rq)
                       \<or> recoveryEmail u = si_emailOrRecoveryEmailOrMobile (req_body rq))
                (users d) = Some u
       \<and> t = Jwt \<lparr>p_id = u_id u, p_username = username u, p_email = email u, p_role = role u,
                  p_iat = issued div 1000, p_exp = issued div 1000 + JWT_EXPIRES_IN ev\<rparr>
                (JWT_SECRET ev)"
  using assms
  by (auto simp: SignIn_def Let_def jwt_sign_def split: option.splits if_splits sum.splits)

text \<open>
  \<open>auth\<close> verifies with the literal \<open>'secret'\<close>, not with the configured secret: under any
  other configured secret every issued token is refused, whatever the clock.
\<close>

lemma SignIn_token_other_secret:
  assumes "fst (SignIn ev issued d rq) = Inr \<lparr>code = c, json = MessageToken m t\<rparr>"
    and "JWT_SECRET ev \<noteq> ''secret''" and "headers_token rq' = Some t"
  shows "catchAsyncError (auth rw now rq')
           = Inl \<lparr>code = 498, json = Message (Text ''Invalid token'')\<rparr>"
proof -
  from SignIn_token [OF assms(1)] obtain p where "t = Jwt p (JWT_SECRET ev)" by blast
  with assms(2,3) show ?thesis
    by (simp add: auth_def jwt_verify_def boundary_defs)
qed

text \<open>
  When the configured secret happens to be \<open>'secret'\<close>, the round trip holds: before its
  expiry the token is accepted and the attached identity is the signed-in user's.
\<close>

lemma SignIn_token_same_secret:
  assumes "fst (SignIn ev issued d rq) = Inr \<lparr>code = c, json = MessageToken m t\<rparr>"
    and "JWT_SECRET ev = ''secret''" and "headers_token rq' = Some t"
    and "now div 1000 < issued div 1000 + JWT_EXPIRES_IN ev"
  shows "\<exists>u idn. findOne (\<lambda>u. email u = si_emailOrRecoveryEmailOrMobile (req_body rq)
                       \<or> mobileNumber u = si_emailOrRecoveryEmailOrMobile (req_body rq)
                       \<or> recoveryEmail u = si_emailOrRecoveryEmailOrMobile (req_body rq))
                    (users d) = Some u
       \<and> catchAsyncError (auth None now rq') = Inr (rq'\<lparr>req_user := Some idn\<rparr>)
       \<and> p_id idn = u_id u \<and> p_username idn = username u \<and> p_email idn = email u
       \<and> p_role idn = role u"
proof -
  from SignIn_token [OF assms(1)] obtain u where
    u: "findOne (\<lambda>u. email u = si_emailOrRecoveryEmailOrMobile (req_body rq)
                       \<or> mobileNumber u = si_emailOrRecoveryEmailOrMobile (req_body rq)
                       \<or> recoveryEmail u = si_emailOrRecoveryEmailOrMobile (req_body rq))
          (users d) = Some u"
    and t: "t = Jwt \<lparr>p_id = u_id u, p_username = username u, p_email = email u, p_role = role u,
                  p_iat = issued div 1000, p_exp = issued div 1000 + JWT_EXPIRES_IN ev\<rparr>
                (JWT_SECRET ev)" by blast
  have "catchAsyncError (auth None now rq')
          = Inr (rq'\<lparr>req_user := Some \<lparr>p_id = u_id u, p_username = username u,
                   p_email = email u, p_role = role u, p_iat = issued div 1000,
                   p_exp = issued div 1000 + JWT_EXPIRES_IN ev\<rparr>\<rparr>)"
    using t assms(2,3,4) by (simp add: auth_def jwt_verify_def boundary_defs)
  with u show ?thesis by force
qed

text \<open>
  Claim C2. The claim is that every token \<open>SignIn\<close> issues under the configured secret is
  accepted by \<open>auth\<close> before its expiry. Evaluated with the configured secret
  \<open>s3cr3t-key\<close>: the first HR user signs in at clock 5000 (status 200, token valid until
  second 3605), presents the token at clock 6000, and \<open>auth\<close> answers 498, because it
  verifies against the literal \<open>'secret'\<close>.
\<close>

theorem signed_token_rejected:
  "fst (SignIn configured 5000 store0 signIn_request)
     = Inr \<lparr>code = 200, json = MessageToken ''SignIn successfully'' issued_token\<rparr>
   \<and> catchAsyncError (auth None 6000 (request_with (Some issued_token) None [] ()))
     = Inl \<lparr>code = 498, json = Message (Text ''Invalid token'')\<rparr>"
  by (simp add: SignIn_def auth_def jwt_sign_def jwt_verify_def configured_def
        signIn_request_def issued_token_def findOne_def compareSync_def Let_def
        sample_defs boundary_defs)

section \<open>Ownership of jobs\<close>

text \<open>
  The guard of the three operations on a job that exists, for an attached identity: a
  stranger is refused (with 403 by \<open>updateJob\<close> and \<open>deleteJob\<close>, with 498 by
  \<open>getAllApplicationsForSpecificJob\<close>), the owner gets 200.
\<close>

lemma job_owner_guard:
  assumes "findById j_id (params_id rq) (jobs d) = Inr (Some j)" and "req_user rq = Some idn"
  shows "addedBy j \<noteq> p_id idn \<Longrightarrow>
           catchAsyncError (fst (updateJob d rq))
             = Inl \<lparr>code = 403,
                    json = Message (Text ''Only the company owner can update the data'')\<rparr>"
    and "addedBy j \<noteq> p_id idn \<Longrightarrow>
           catchAsyncError (fst (deleteJob d rq))
             = Inl \<lparr>code = 403,
                    json = Message (Text ''Only the company owner can delete the data'')\<rparr>"
    and "addedBy j \<noteq> p_id idn \<Longrightarrow>
           catchAsyncError (fst (getAllApplicationsForSpecificJob d rq))
             = Inl \<lparr>code = 498,
                    json = Message
                      (Text ''Only the owner can view the applications for their jobs'')\<rparr>"
    and "addedBy j = p_id idn \<Longrightarrow>
           (\<exists>b. catchAsyncError (fst (updateJob d rq)) = Inr \<lparr>code = 200, json = b\<rparr>)
         \<and> (\<exists>b. catchAsyncError (fst (deleteJob d rq)) = Inr \<lparr>code = 200, json = b\<rparr>)
         \<and> (\<exists>b. catchAsyncError (fst (getAllApplicationsForSpecificJob d rq))
                  = Inr \<lparr>code = 200, json = b\<rparr>)"
  using assms
  by (simp_all add: updateJob_def deleteJob_def getAllApplicationsForSpecificJob_def Let_def
        boundary_defs)

text \<open>
  Claim C4. The claim is that each ownership-guarded operation on an existing job answers a
  caller who is not the owner with status 403. Evaluated for the second HR user on the job
  of the first: \<open>getAllApplicationsForSpecificJob\<close> answers 498 with the message
  "Only the owner can view the applications for their jobs", while \<open>updateJob\<close> and
  \<open>deleteJob\<close> answer 403 on the same job for the same caller.
\<close>

theorem view_applications_wrong_status:
  "catchAsyncError (fst (getAllApplicationsForSpecificJob store0
       (request_with None (Some (identity_of hr_other)) jid1 ())))
     = Inl \<lparr>code = 498,
            json = Message (Text ''Only the owner can view the applications for their jobs'')\<rparr>
   \<and> catchAsyncError (fst (updateJob store0
       (request_with None (Some (identity_of hr_other)) jid1 no_changes)))
     = Inl \<lparr>code = 403, json = Message (Text ''Only the company owner can update the data'')\<rparr>
   \<and> catchAsyncError (fst (deleteJob store0
       (request_with None (Some (identity_of hr_other)) jid1 ())))
     = Inl \<lparr>code = 403, json = Message (Text ''Only the company owner can delete the data'')\<rparr>"
  by (simp add: getAllApplicationsForSpecificJob_def updateJob_def deleteJob_def findById_def
        byId_def sample_casts sample_defs boundary_defs)

text \<open>
  Claim C5, as stated, at a concrete input. No job has the id \<open>not an id at all\<close>, and
  none of the three routes checks the form of the id. It is not an ObjectId, so
  \<open>Job.findById\<close> rejects with a \<open>CastError\<close>, and \<open>updateJob\<close>, \<open>deleteJob\<close>
  and \<open>getAllApplicationsForSpecificJob\<close> answer 500, not 404.
\<close>

theorem malformed_id_counterexample:
  "byId j_id ''not an id at all'' (jobs store0) = None
   \<and> catchAsyncError (fst (updateJob store0
        (request_with None (Some (identity_of hr_other)) ''not an id at all'' no_changes)))
     = Inl \<lparr>code = 500, json = Message (Text ''Cast to ObjectId failed'')\<rparr>
   \<and> catchAsyncError (fst (deleteJob store0
        (request_with None (Some (identity_of hr_other)) ''not an id at all'' ())))
     = Inl \<lparr>code = 500, json = Message (Text ''Cast to ObjectId failed'')\<rparr>
   \<and> catchAsyncError (fst (getAllApplicationsForSpecificJob store0
        (request_with None (Some (identity_of hr_other)) ''not an id at all'' ())))
     = Inl \<lparr>code = 500, json = Message (Text ''Cast to ObjectId failed'')\<rparr>"
  by (simp add: updateJob_def deleteJob_def getAllApplicationsForSpecificJob_def findById_def
        byId_def castObjectId_def isObjectId_def CastError_def Error_def
        sample_defs boundary_defs)

text \<open>
  Claim C5, amended. In \<open>updateJob\<close>, \<open>deleteJob\<close> and
  \<open>getAllApplicationsForSpecificJob\<close> existence is checked before ownership: when the
  target id is a well-formed ObjectId that no job has (\<open>findById\<close> resolves with nothing),
  the answer is 404 "Job not found" for every caller, whatever identity the request carries;
  and an ownership refusal (403, or the 498 that \<open>getAllApplicationsForSpecificJob\<close> uses
  for it) is only ever answered for a job that exists.
\<close>

theorem existence_before_ownership:
  "(findById j_id (params_id ur) (jobs d) = Inr None \<longrightarrow>
      catchAsyncError (fst (updateJob d ur))
        = Inl \<lparr>code = 404, json = Message (Text ''Job not found'')\<rparr>)
   \<and> (findById j_id (params_id dr) (jobs d) = Inr None \<longrightarrow>
      catchAsyncError (fst (deleteJob d dr))
        = Inl \<lparr>code = 404, json = Message (Text ''Job not found'')\<rparr>)
   \<and> (findById j_id (params_id gr) (jobs d) = Inr None \<longrightarrow>
      catchAsyncError (fst (getAllApplicationsForSpecificJob d gr))
        = Inl \<lparr>code = 404, json = Message (Text ''Job not found'')\<rparr>)
   \<and> (catchAsyncError (fst (updateJob d ur)) = Inl r \<and> code r = 403 \<longrightarrow>
      (\<exists>j. findById j_id (params_id ur) (jobs d) = Inr (Some j)))
   \<and> (catchAsyncError (fst (deleteJob d dr)) = Inl r \<and> code r = 403 \<longrightarrow>
      (\<exists>j. findById j_id (params_id dr) (jobs d) = Inr (Some j)))
   \<and> (catchAsyncError (fst (getAllApplicationsForSpecificJob d gr)) = Inl r
        \<and> (code r = 403 \<or> code r = 498) \<longrightarrow>
      (\<exists>j. findById j_id (params_id gr) (jobs d) = Inr (Some j)))"
proof -
  have faults: "err = CastError" if "findById j_id i (jobs d) = Inl err" for i err
    using that by (simp add: findById_def castObjectId_def split: if_splits)
  have cast_500: "code (error_handler CastError) = 500"
    by (simp add: error_handler_def CastError_def Error_def)
  have type_500: "code (error_handler TypeError) = 500"
    by (simp add: error_handler_def TypeError_def Error_def)
  have nf_404: "code (error_handler (AppError (Text ''Job not found'') 404)) = 404"
    by (simp add: error_handler_def AppError_def)
  have u: "\<exists>j. findById j_id (params_id ur) (jobs d) = Inr (Some j)"
    if "catchAsyncError (fst (updateJob d ur)) = Inl r" "code r = 403"
  proof (cases "findById j_id (params_id ur) (jobs d)")
    case (Inl err)
    with that faults [OF Inl] cast_500 show ?thesis
      by (auto simp: updateJob_def catchAsyncError_def)
  next
    case (Inr found)
    with that nf_404 show ?thesis
      by (cases found) (auto simp: updateJob_def catchAsyncError_def)
  qed
  have dl: "\<exists>j. findById j_id (params_id dr) (jobs d) = Inr (Some j)"
    if "catchAsyncError (fst (deleteJob d dr)) = Inl r" "code r = 403"
  proof (cases "findById j_id (params_id dr) (jobs d)")
    case (Inl err)
    with that faults [OF Inl] cast_500 show ?thesis
      by (auto simp: deleteJob_def catchAsyncError_def)
  next
    case (Inr found)
    with that nf_404 show ?thesis
      by (cases found) (auto simp: deleteJob_def catchAsyncError_def)
  qed
  have g: "\<exists>j. findById j_id (params_id gr) (jobs d) = Inr (Some j)"
    if "catchAsyncError (fst (getAllApplicationsForSpecificJob d gr)) = Inl r"
      "code r = 403 \<or> code r = 498"
  proof (cases "findById j_id (params_id gr) (jobs d)")
    case (Inl err)
    with that faults [OF Inl] cast_500 show ?thesis
      by (auto simp: getAllApplicationsForSpecificJob_def catchAsyncError_def)
  next
    case (Inr found)
    with that nf_404 show ?thesis
      by (cases found) (auto simp: getAllApplicationsForSpecificJob_def catchAsyncError_def)
  qed
  have nf: "catchAsyncError (Inl (AppError (Text ''Job not found'') 404) :: fault + response)
              = Inl \<lparr>code = 404, json = Message (Text ''Job not found'')\<rparr>"
    by (simp add: boundary_defs)
  show ?thesis
    using u dl g nf
    by (simp add: updateJob_def deleteJob_def getAllApplicationsForSpecificJob_def)
qed

theorem existence_before_ownership_witness:
  "catchAsyncError (fst (updateJob store0
       (request_with None (Some (identity_of hr_other)) jid9 no_changes)))
     = Inl \<lparr>code = 404, json = Message (Text ''Job not found'')\<rparr>
   \<and> catchAsyncError (fst (deleteJob store0
       (request_with None (Some (identity_of hr_other)) jid9 ())))
     = Inl \<lparr>code = 404, json = Message (Text ''Job not found'')\<rparr>
   \<and> catchAsyncError (fst (getAllApplicationsForSpecificJob store0
        (request_with None (Some (identity_of hr_other)) jid9 ())))
     = Inl \<lparr>code = 404, json = Message (Text ''Job not found'')\<rparr>
   \<and> (\<exists>j. findById j_id jid1 (jobs store0) = Inr (Some j))"
proof -
  let ?u9 = "request_with None (Some (identity_of hr_other)) jid9 no_changes"
  let ?d9 = "request_with None (Some (identity_of hr_other)) jid9 ()"
  let ?u1 = "request_with None (Some (identity_of hr_other)) jid1 no_changes"
  let ?d1 = "request_with None (Some (identity_of hr_other)) jid1 ()"
  let ?r3 = "\<lparr>code = 403, json = Message (Text ''Only the company owner can update the data'')\<rparr>"
  have absent: "findById j_id (params_id ?u9) (jobs store0) = Inr None"
    "findById j_id (params_id ?d9) (jobs store0) = Inr None"
    by (simp_all add: findById_def byId_def sample_casts sample_defs)
  have refused: "catchAsyncError (fst (updateJob store0 ?u1)) = Inl ?r3" "code ?r3 = 403"
    by (simp_all add: updateJob_def findById_def byId_def sample_casts sample_defs boundary_defs)
  have p: "params_id ?u1 = jid1" by (simp add: request_with_def)
  show ?thesis
    using existence_before_ownership [of ?u9 store0 ?d9 ?d9] absent
      existence_before_ownership [of ?u1 store0 ?d1 ?d1 ?r3] refused p
    by simp
qed

section \<open>Application submission\<close>

text \<open>
  Claim C6, as stated, at two concrete inputs; the job \<open>jid1\<close> exists in both. First,
  no resume is attached and the \<open>userTechSkills\<close> field holds the text \<open>node\<close>, which
  the validation schema accepts (any string) and \<open>JSON.parse\<close> rejects: the decode runs
  before the lookup and the file check, its \<open>SyntaxError\<close> reaches the error handler, and
  the answer is 500, not the 400 "Resume file is required" of the claim. Second, a resume is
  attached and buffered, the upload succeeds, and the field holds the text \<open>null\<close>, which
  the schema accepts and \<open>JSON.parse\<close> decodes: \<open>save()\<close> rejects the document, the
  answer is 500, not 201, and no application is created.
\<close>

theorem missing_resume_undecodable_counterexample:
  "findById j_id (aj_jobId (req_body (apply_request ''node'' None))) (jobs store0)
     = Inr (Some backend_job)
   \<and> req_file (apply_request ''node'' None) = None
   \<and> catchAsyncError (fst (applyToJob JSON_parse_table no_other_cast asset_store aid1 store0
        (apply_request ''node'' None)))
     = Inl \<lparr>code = 500, json = Message (Text ''Unexpected token in JSON'')\<rparr>
   \<and> catchAsyncError (fst (applyToJob JSON_parse_table no_other_cast asset_store aid1 store0
        (apply_request ''null'' (Some \<lparr>path = ''uploads/cv.pdf''\<rparr>))))
     = Inl \<lparr>code = 500, json = Message (Text ''Application validation failed'')\<rparr>
   \<and> applications (snd (applyToJob JSON_parse_table no_other_cast asset_store aid1 store0
        (apply_request ''null'' (Some \<lparr>path = ''uploads/cv.pdf''\<rparr>))))
     = []"
  by (simp add: applyToJob_def apply_request_def JSON_parse_table_def tech_text_def
        soft_text_def findById_def byId_def sample_casts Error_def asset_store_def
        new_Application_def cast_String_array_def ValidationError_def
        sample_defs boundary_defs)

text \<open>
  Claim C6, amended. For every \<open>JSON.parse\<close>, every asset store and whatever mongoose
  makes of values that are not arrays of strings: when both skill-list fields decode, the
  target job exists and no resume file is attached, \<open>applyToJob\<close> answers 400
  "Resume file is required" itself and leaves the store as it was (no application is
  created). When both fields decode to arrays of strings, the job exists, a resume is
  attached and buffered at its path, the upload resolves with a (non-empty) URL and the
  request carries the applicant's identity (its id an ObjectId), exactly one application is
  appended, holding the given id, the job's id, the applicant's id, the two decoded lists
  and the URL, and the answer is 201 with the message "Application submitted successfully"
  and nothing else in the body.
\<close>

theorem applyToJob_submission:
  "(JSON_parse (aj_userTechSkills (req_body rq)) = Inr tech
      \<and> JSON_parse (aj_userSoftSkills (req_body rq)) = Inr soft
      \<and> findById j_id (aj_jobId (req_body rq)) (jobs d) = Inr (Some j)
      \<and> req_file rq = None \<longrightarrow>
      catchAsyncError (fst (applyToJob JSON_parse other upload new_id d rq))
        = Inr \<lparr>code = 400, json = Message (Text ''Resume file is required'')\<rparr>
      \<and> snd (applyToJob JSON_parse other upload new_id d rq) = d)
   \<and> (JSON_parse (aj_userTechSkills (req_body rq)) = Inr (JArray (map JString ts))
      \<and> JSON_parse (aj_userSoftSkills (req_body rq)) = Inr (JArray (map JString ss))
      \<and> findById j_id (aj_jobId (req_body rq)) (jobs d) = Inr (Some j)
      \<and> req_file rq = Some f \<and> path f \<in> set (local_files d)
      \<and> upload (path f) = Inr url \<and> url \<noteq> []
      \<and> req_user rq = Some idn \<and> castObjectId (p_id idn) = Inr uid \<longrightarrow>
      catchAsyncError (fst (applyToJob JSON_parse other upload new_id d rq))
        = Inr \<lparr>code = 201, json = Message (Text ''Application submitted successfully'')\<rparr>
      \<and> applications (snd (applyToJob JSON_parse other upload new_id d rq))
        = applications d @
            [\<lparr>a_id = new_id, jobId = j_id j, userId = uid, userTechSkills = ts,
              userSoftSkills = ss, userResume = url\<rparr>])"
  by (simp add: applyToJob_def new_Application_def cast_String_array_def those_as_string
        unlinkSync_def Let_def catchAsyncError_def)

theorem applyToJob_submission_witness:
  "catchAsyncError (fst (applyToJob JSON_parse_table no_other_cast asset_store aid1 store0
       (apply_request tech_text None)))
     = Inr \<lparr>code = 400, json = Message (Text ''Resume file is required'')\<rparr>
   \<and> snd (applyToJob JSON_parse_table no_other_cast asset_store aid1 store0
        (apply_request tech_text None))
     = store0
   \<and> catchAsyncError (fst (applyToJob JSON_parse_table no_other_cast asset_store aid1 store0
       (apply_request tech_text (Some \<lparr>path = ''uploads/cv.pdf''\<rparr>))))
     = Inr \<lparr>code = 201, json = Message (Text ''Application submitted successfully'')\<rparr>
   \<and> applications (snd (applyToJob JSON_parse_table no_other_cast asset_store aid1 store0
       (apply_request tech_text (Some \<lparr>path = ''uploads/cv.pdf''\<rparr>))))
     = [\<lparr>a_id = aid1, jobId = jid1, userId = uid3, userTechSkills = [''node''],
         userSoftSkills = [''teamwork''],
         userResume = ''https://assets.test/uploads/cv.pdf''\<rparr>]"
proof -
  let ?f = "\<lparr>path = ''uploads/cv.pdf''\<rparr>"
  have parse:
    "JSON_parse_table (aj_userTechSkills (req_body (apply_request tech_text None)))
       = Inr (JArray (map JString [''node'']))"
    "JSON_parse_table (aj_userSoftSkills (req_body (apply_request tech_text None)))
       = Inr (JArray (map JString [''teamwork'']))"
    "JSON_parse_table (aj_userTechSkills (req_body (apply_request tech_text (Some ?f))))
       = Inr (JArray (map JString [''node'']))"
    "JSON_parse_table (aj_userSoftSkills (req_body (apply_request tech_text (Some ?f))))
       = Inr (JArray (map JString [''teamwork'']))"
    by (simp_all add: JSON_parse_table_def apply_request_def tech_text_def soft_text_def)
  have job:
    "findById j_id (aj_jobId (req_body (apply_request tech_text None))) (jobs store0)
       = Inr (Some backend_job)"
    "findById j_id (aj_jobId (req_body (apply_request tech_text (Some ?f)))) (jobs store0)
       = Inr (Some backend_job)"
    by (simp_all add: findById_def byId_def sample_casts apply_request_def sample_defs)
  have attached: "req_file (apply_request tech_text None) = None"
    "req_file (apply_request tech_text (Some ?f)) = Some ?f"
    "path ?f \<in> set (local_files store0)"
    "asset_store (path ?f) = Inr ''https://assets.test/uploads/cv.pdf''"
    "''https://assets.test/uploads/cv.pdf'' \<noteq> []"
    "req_user (apply_request tech_text (Some ?f)) = Some (identity_of seeker)"
    "castObjectId (p_id (identity_of seeker)) = Inr uid3"
    by (simp_all add: apply_request_def asset_store_def sample_casts sample_defs)
  have ids: "j_id backend_job = jid1" "applications store0 = []"
    by (simp_all add: sample_defs)
  show ?thesis
    using applyToJob_submission [of JSON_parse_table "apply_request tech_text None"
        "JArray (map JString [''node''])" "JArray (map JString [''teamwork''])" store0
        backend_job no_other_cast asset_store aid1]
      applyToJob_submission [of JSON_parse_table "apply_request tech_text (Some ?f)"
        "JArray (map JString [''node''])" "JArray (map JString [''teamwork''])" store0
        backend_job no_other_cast asset_store aid1 "[''node'']" "[''teamwork'']" ?f
        "''https://assets.test/uploads/cv.pdf''" "identity_of seeker" uid3]
      parse job attached ids
    by simp
qed

section \<open>Password recovery\<close>

text \<open>
  \<open>verifyOTPAndSetNewPassword\<close> on a user found with the submitted code stored and an
  expiry date \<open>e\<close>: past \<open>e\<close> it throws, up to \<open>e\<close> it resets the password.
\<close>

lemma verifyOTP_on_stored:
  assumes "findOne (\<lambda>u. email u = vo_emailOrMobile (req_body rq)
                     \<or> mobileNumber u = vo_emailOrMobile (req_body rq)) (users d) = Some u"
    and "otp u = Val (vo_otp (req_body rq))" and "otpExpire u = Val e"
  shows "verifyOTPAndSetNewPassword now d rq =
     (if e < now then (Inl (AppError (Text ''OTP expired'') 400), d)
      else (Inr \<lparr>code = 200, json = Message (Text ''Password updated successfully'')\<rparr>,
            d\<lparr>users := findByIdAndUpdate u_id (u_id u)
                 (\<lambda>x. x\<lparr>password := hashSync (vo_newPassword (req_body rq)) 8,
                         otp := Null, otpExpire := Null\<rparr>)
                 (users d)\<rparr>))"
  using assms by (simp add: verifyOTPAndSetNewPassword_def Let_def now_after_def)

text \<open>
  What \<open>forgetPassword\<close> stores for the user it finds, whether or not the mail is
  delivered: the six-digit code and an expiry ten minutes after the clock.
\<close>

lemma forgetPassword_store:
  assumes "findOne (\<lambda>u. email u = fp_emailOrMobile (req_body rq0)
                     \<or> mobileNumber u = fp_emailOrMobile (req_body rq0)) (users d) = Some u"
  shows "snd (forgetPassword sendMail rnd issued d rq0) =
     d\<lparr>users := findByIdAndUpdate u_id (u_id u)
          (\<lambda>x. x\<lparr>otp := Val (toString (100000 + rnd mod 900000)),
                  otpExpire := Val (issued + 600000)\<rparr>)
          (users d)\<rparr>"
  using assms by (simp add: forgetPassword_def Let_def split: option.splits)

text \<open>
  Claim C7. Let \<open>forgetPassword\<close> generate a code at clock \<open>issued\<close> for the user found
  by \<open>q\<close> in a store with distinct ids, and let \<open>verifyOTPAndSetNewPassword\<close> be called at
  clock \<open>used\<close> on the resulting store with the same \<open>q\<close> and that code (so the stored code
  matches the submitted one). If the call arrives more than ten minutes (600000 ms) after the
  generation, it fails with status 400 and message "OTP expired". If it arrives no later
  than that, it succeeds with status 200, and afterwards the user's stored password is the
  hash of the new password and both \<open>otp\<close> and \<open>otpExpire\<close> are cleared (null).
\<close>

theorem verifyOTP_ten_minutes:
  assumes ids: "distinct (map u_id (users d))"
    and found: "findOne (\<lambda>u. email u = q \<or> mobileNumber u = q) (users d) = Some u"
    and q0: "fp_emailOrMobile (req_body rq0) = q"
    and b: "req_body rq = \<lparr>vo_emailOrMobile = q, vo_otp = toString (100000 + rnd mod 900000),
                            vo_newPassword = pw\<rparr>"
    and d1: "d1 = snd (forgetPassword sendMail rnd issued d rq0)"
  shows "(issued + 600000 < used \<longrightarrow>
            catchAsyncError (fst (verifyOTPAndSetNewPassword used d1 rq))
              = Inl \<lparr>code = 400, json = Message (Text ''OTP expired'')\<rparr>)
       \<and> (used \<le> issued + 600000 \<longrightarrow>
            catchAsyncError (fst (verifyOTPAndSetNewPassword used d1 rq))
              = Inr \<lparr>code = 200, json = Message (Text ''Password updated successfully'')\<rparr>
            \<and> findOne (\<lambda>u. email u = q \<or> mobileNumber u = q)
                 (users (snd (verifyOTPAndSetNewPassword used d1 rq)))
              = Some (u\<lparr>password := hashSync pw 8, otp := Null, otpExpire := Null\<rparr>))"
proof -
  let ?sel = "\<lambda>u. email u = q \<or> mobileNumber u = q"
  let ?f = "\<lambda>x. x\<lparr>otp := Val (toString (100000 + rnd mod 900000)),
                   otpExpire := Val (issued + 600000)\<rparr>"
  let ?g = "\<lambda>x. x\<lparr>password := hashSync pw 8, otp := Null, otpExpire := Null\<rparr>"
  have us1: "users d1 = update_first (\<lambda>x. u_id x = u_id u) ?f (users d)"
    using forgetPassword_store [of rq0 d u sendMail rnd issued] found q0 d1
    by (simp add: findByIdAndUpdate_def)
  have f1: "find ?sel (users d1) = Some (?f u)"
    unfolding us1 using found ids
    by (intro find_update_first) (simp_all add: findOne_def)
  have ids1: "distinct (map u_id (users d1))"
    unfolding us1 using ids by (simp add: map_update_first)
  have v: "verifyOTPAndSetNewPassword used d1 rq =
     (if issued + 600000 < used then (Inl (AppError (Text ''OTP expired'') 400), d1)
      else (Inr \<lparr>code = 200, json = Message (Text ''Password updated successfully'')\<rparr>,
            d1\<lparr>users := findByIdAndUpdate u_id (u_id (?f u)) ?g (users d1)\<rparr>))"
    using verifyOTP_on_stored [of rq d1 "?f u" "issued + 600000" used] f1 b
    by (simp add: findOne_def)
  have f2: "find ?sel (update_first (\<lambda>x. u_id x = u_id (?f u)) ?g (users d1))
              = Some (?g (?f u))"
    using f1 ids1 by (intro find_update_first) simp_all
  show ?thesis
    using v f2
    by (simp add: catchAsyncError_def error_handler_def AppError_def findOne_def
          findByIdAndUpdate_def)
qed

theorem verifyOTP_ten_minutes_witness:
  "catchAsyncError (fst (verifyOTPAndSetNewPassword 1600001
       (snd (forgetPassword mail_delivered 23456 1000000 store0 recover_request)) reset_request))
     = Inl \<lparr>code = 400, json = Message (Text ''OTP expired'')\<rparr>
   \<and> catchAsyncError (fst (verifyOTPAndSetNewPassword 1600000
       (snd (forgetPassword mail_delivered 23456 1000000 store0 recover_request)) reset_request))
     = Inr \<lparr>code = 200, json = Message (Text ''Password updated successfully'')\<rparr>
   \<and> findOne (\<lambda>u. email u = ''mona@mail.test'' \<or> mobileNumber u = ''mona@mail.test'')
        (users (snd (verifyOTPAndSetNewPassword 1600000
           (snd (forgetPassword mail_delivered 23456 1000000 store0 recover_request))
           reset_request)))
     = Some (seeker\<lparr>password := hashSync ''N3wPassword'' 8, otp := Null, otpExpire := Null\<rparr>)"
proof -
  have ids: "distinct (map u_id (users store0))"
    by (simp add: store0_def hr_owner_def hr_other_def seeker_def)
  have found: "findOne (\<lambda>u. email u = ''mona@mail.test'' \<or> mobileNumber u = ''mona@mail.test'')
                 (users store0) = Some seeker"
    by (simp add: findOne_def store0_def hr_owner_def hr_other_def seeker_def)
  have q0: "fp_emailOrMobile (req_body recover_request) = ''mona@mail.test''"
    by (simp add: recover_request_def request_with_def)
  have b: "req_body reset_request = \<lparr>vo_emailOrMobile = ''mona@mail.test'',
             vo_otp = toString (100000 + 23456 mod 900000), vo_newPassword = ''N3wPassword''\<rparr>"
    by (simp add: reset_request_def request_with_def)
  show ?thesis
    using verifyOTP_ten_minutes [where sendMail = mail_delivered and issued = 1000000
        and used = 1600001, OF ids found q0 b refl]
      verifyOTP_ten_minutes [where sendMail = mail_delivered and issued = 1000000
        and used = 1600000, OF ids found q0 b refl]
    by simp
qed

text \<open>
  Claim C10, as stated, at a concrete input. The job seeker's stored code is \<open>123456\<close>
  with expiry 600000; a reset that submits this code at clock 600001 fails with status 400
  "OTP expired", and afterwards the stored \<open>otp\<close> and \<open>otpExpire\<close> are still the code and
  its expiry: they are not cleared.
\<close>

theorem expired_otp_not_cleared_counterexample:
  "catchAsyncError (fst (verifyOTPAndSetNewPassword 600001 store0 late_reset_request))
     = Inl \<lparr>code = 400, json = Message (Text ''OTP expired'')\<rparr>
   \<and> map (\<lambda>u. (otp u, otpExpire u))
        (filter (\<lambda>u. email u = ''mona@mail.test'')
           (users (snd (verifyOTPAndSetNewPassword 600001 store0 late_reset_request))))
     = [(Val ''123456'', Val 600000)]"
  by (simp add: verifyOTPAndSetNewPassword_def late_reset_request_def request_with_def
        store0_def hr_owner_def hr_other_def seeker_def findOne_def now_after_def
        catchAsyncError_def error_handler_def AppError_def)

text \<open>
  Claim C10, amended. A call of \<open>verifyOTPAndSetNewPassword\<close> that fails with
  "OTP expired" leaves the whole store as it was: the user's \<open>otp\<close> and \<open>otpExpire\<close> stay
  as stored and the password is unchanged. The pair is cleared by a successful reset only.
\<close>

theorem expired_otp_leaves_store:
  "fst (verifyOTPAndSetNewPassword now d rq) = Inl (AppError (Text ''OTP expired'') 400)
   \<Longrightarrow> snd (verifyOTPAndSetNewPassword now d rq) = d"
  by (simp add: verifyOTPAndSetNewPassword_def Let_def AppError_def
        split: option.splits if_splits)

theorem expired_otp_leaves_store_witness:
  "fst (verifyOTPAndSetNewPassword 600001 store0 late_reset_request)
     = Inl (AppError (Text ''OTP expired'') 400)
   \<and> snd (verifyOTPAndSetNewPassword 600001 store0 late_reset_request) = store0"
proof -
  have h: "fst (verifyOTPAndSetNewPassword 600001 store0 late_reset_request)
             = Inl (AppError (Text ''OTP expired'') 400)"
    by (simp add: verifyOTPAndSetNewPassword_def late_reset_request_def request_with_def
          store0_def hr_owner_def hr_other_def seeker_def findOne_def now_after_def)
  show ?thesis
    using h expired_otp_leaves_store [OF h] by simp
qed

section \<open>Uniqueness conflicts\<close>

text \<open>
  Claim C8. The claim is that every rejection for a unique value that already exists answers
  409. Evaluated on the sample store: a sign-up with the email of an existing user answers
  400 "Email already exists", and adding a company with the name of an existing company
  answers 400 "Company already exists"; the two update paths answer 409 for the same
  condition (an account update to a taken email, a company update to a taken name).
\<close>

theorem duplicate_on_create_is_400:
  "catchAsyncError (fst (signUp configured uid4 store0 (request_with None None [] taken_signUp)))
     = Inl \<lparr>code = 400, json = Message (Text ''Email already exists'')\<rparr>
   \<and> catchAsyncError (fst (addCompany cid3 store0
        (request_with None (Some (identity_of hr_other)) [] taken_company)))
     = Inl \<lparr>code = 400, json = Message (Text ''Company already exists'')\<rparr>
   \<and> catchAsyncError (fst (updateAccount store0
        (request_with None (Some (identity_of hr_other)) [] taken_email_update)))
     = Inl \<lparr>code = 409, json = Message (Text ''Email already in use'')\<rparr>
   \<and> catchAsyncError (fst (updateCompanyData store0
        (request_with None (Some (identity_of hr_other)) [] taken_name_update)))
     = Inl \<lparr>code = 409, json = Message (Text ''Company name already in use'')\<rparr>"
  by (simp add: signUp_def addCompany_def updateAccount_def updateCompanyData_def
        taken_signUp_def taken_company_def taken_email_update_def taken_name_update_def
        findOne_def findById_def byId_def sample_casts Let_def sample_defs boundary_defs)

section \<open>The status gate\<close>

text \<open>
  Claim C9. For a request that carries an identity whose stored user has status
  \<open>offline\<close>, each of \<open>updateAccount\<close>, \<open>deleteAccount\<close> and \<open>getUserData\<close> fails with
  status 401 and message "LogIn first" and leaves the store, hence the user record,
  unchanged. When the stored status is \<open>online\<close> each of them passes the gate:
  \<open>getUserData\<close> and \<open>deleteAccount\<close> answer 200 with the user, and \<open>updateAccount\<close>
  goes on to its uniqueness check and answers 409 or 200.
\<close>

theorem offline_gate:
  "(req_user ur = Some idn \<and> findById u_id (p_id idn) (users d) = Inr (Some x)
      \<and> status x = ''offline'' \<longrightarrow>
      catchAsyncError (fst (updateAccount d ur))
        = Inl \<lparr>code = 401, json = Message (Text ''LogIn first'')\<rparr>
      \<and> snd (updateAccount d ur) = d)
   \<and> (req_user dr = Some idn \<and> findById u_id (p_id idn) (users d) = Inr (Some x)
      \<and> status x = ''offline'' \<longrightarrow>
      catchAsyncError (fst (deleteAccount d dr))
        = Inl \<lparr>code = 401, json = Message (Text ''LogIn first'')\<rparr>
      \<and> snd (deleteAccount d dr) = d)
   \<and> (req_user gr = Some idn \<and> findById u_id (p_id idn) (users d) = Inr (Some x)
      \<and> status x = ''offline'' \<longrightarrow>
      catchAsyncError (fst (getUserData d gr))
        = Inl \<lparr>code = 401, json = Message (Text ''LogIn first'')\<rparr>
      \<and> snd (getUserData d gr) = d)
   \<and> (req_user ur = Some idn \<and> findById u_id (p_id idn) (users d) = Inr (Some x)
      \<and> status x = ''online'' \<longrightarrow>
      (case catchAsyncError (fst (updateAccount d ur)) of
         Inl r \<Rightarrow> code r = 409 | Inr r \<Rightarrow> code r = 200))
   \<and> (req_user dr = Some idn \<and> findById u_id (p_id idn) (users d) = Inr (Some x)
      \<and> status x = ''online'' \<longrightarrow>
      catchAsyncError (fst (deleteAccount d dr))
        = Inr \<lparr>code = 200, json = MessageUser ''Account deleted successfully'' (Some x)\<rparr>)
   \<and> (req_user gr = Some idn \<and> findById u_id (p_id idn) (users d) = Inr (Some x)
      \<and> status x = ''online'' \<longrightarrow>
      catchAsyncError (fst (getUserData d gr))
        = Inr \<lparr>code = 200, json = MessageUser ''Success'' (Some x)\<rparr>)"
  by (auto simp: updateAccount_def deleteAccount_def getUserData_def Let_def boundary_defs
        split: option.splits dest: findById_byId)

theorem offline_gate_witness:
  "catchAsyncError (fst (updateAccount store0
       (request_with None (Some (identity_of seeker)) [] no_account_changes)))
     = Inl \<lparr>code = 401, json = Message (Text ''LogIn first'')\<rparr>
   \<and> snd (deleteAccount store0 (request_with None (Some (identity_of seeker)) [] ())) = store0
   \<and> catchAsyncError (fst (getUserData store0
        (request_with None (Some (identity_of seeker)) [] ())))
     = Inl \<lparr>code = 401, json = Message (Text ''LogIn first'')\<rparr>
   \<and> catchAsyncError (fst (getUserData store0
        (request_with None (Some (identity_of hr_owner)) [] ())))
     = Inr \<lparr>code = 200, json = MessageUser ''Success'' (Some hr_owner)\<rparr>
   \<and> catchAsyncError (fst (deleteAccount store0
        (request_with None (Some (identity_of hr_owner)) [] ())))
     = Inr \<lparr>code = 200, json = MessageUser ''Account deleted successfully'' (Some hr_owner)\<rparr>"
proof -
  let ?su = "request_with None (Some (identity_of seeker)) [] no_account_changes"
  let ?s = "request_with None (Some (identity_of seeker)) [] ()"
  let ?hu = "request_with None (Some (identity_of hr_owner)) [] no_account_changes"
  let ?h = "request_with None (Some (identity_of hr_owner)) [] ()"
  have off: "req_user ?su = Some (identity_of seeker)" "req_user ?s = Some (identity_of seeker)"
    "findById u_id (p_id (identity_of seeker)) (users store0) = Inr (Some seeker)"
    "status seeker = ''offline''"
    by (simp_all add: findById_def byId_def sample_casts sample_defs)
  have on: "req_user ?hu = Some (identity_of hr_owner)" "req_user ?h = Some (identity_of hr_owner)"
    "findById u_id (p_id (identity_of hr_owner)) (users store0) = Inr (Some hr_owner)"
    "status hr_owner = ''online''"
    by (simp_all add: findById_def byId_def sample_casts sample_defs)
  show ?thesis
    using offline_gate [of ?su "identity_of seeker" store0 seeker ?s ?s] off
      offline_gate [of ?hu "identity_of hr_owner" store0 hr_owner ?h ?h] on
    by simp
qed

end
